theory Spec2Isabelle
  imports Main "HOL-Library.Signed_Division"
begin

section \<open>Go values used by the daemon\<close>

subsection \<open>Machine integers\<close>

text \<open>
  Go's \<open>int64\<close> arithmetic wraps around silently. Integers are modelled as \<open>int\<close>;
  \<open>wrap64\<close> is the two's complement reduction applied after every \<open>int64\<close>
  operation that can leave the range.
\<close>

definition wrap64 :: "int \<Rightarrow> int" where
  "wrap64 x = (x + 2 ^ 63) mod 2 ^ 64 - 2 ^ 63"

definition is_int64 :: "int \<Rightarrow> bool" where
  "is_int64 x \<longleftrightarrow> - (2 ^ 63) \<le> x \<and> x < 2 ^ 63"

subsection \<open>Package \<open>time\<close>\<close>

text \<open>
  \<open>time.Duration\<close> is an \<open>int64\<close> count of nanoseconds. A \<open>time.Time\<close> is read
  through its wall clock: \<open>sec\<close> counts the seconds since January 1 of year 1 (an
  \<open>int64\<close>), \<open>nsec\<close> the nanoseconds within that second (\<open>0 \<le> nsec < 10^9\<close>).
  \<open>time.Unix\<close>, \<open>Add\<close>, \<open>Equal\<close>, \<open>Before\<close> and \<open>Sub\<close> follow the
  standard library: \<open>Sub\<close> computes the difference with wrapping arithmetic,
  checks it by adding it back, and returns the smallest or the largest duration
  when the check fails. The instant returned by \<open>time.Unix\<close> carries no monotonic
  reading, so \<open>Sub\<close> compares wall clocks even against \<open>time.Now()\<close>.
\<close>

type_synonym Duration = int

definition Second :: Duration where
  "Second = 1000000000"

definition minDuration :: Duration where
  "minDuration = - (2 ^ 63)"

definition maxDuration :: Duration where
  "maxDuration = 2 ^ 63 - 1"

record Time =
  sec :: int
  nsec :: int

definition unixToInternal :: int where
  "unixToInternal = 62135596800"

definition time_Unix :: "int \<Rightarrow> int \<Rightarrow> Time" where
  "time_Unix s n =
     (let (s', n') =
        (if n < 0 \<or> n \<ge> 1000000000 then
           (let q = n sdiv 1000000000;
                s1 = wrap64 (s + q);
                n1 = wrap64 (n - wrap64 (q * 1000000000))
            in if n1 < 0 then (wrap64 (s1 - 1), wrap64 (n1 + 1000000000)) else (s1, n1))
         else (s, n))
      in \<lparr>sec = wrap64 (s' + unixToInternal), nsec = n'\<rparr>)"

definition time_Add :: "Time \<Rightarrow> Duration \<Rightarrow> Time" where
  "time_Add t d =
     (let s = wrap64 (sec t + d sdiv 1000000000);
          n = nsec t + d smod 1000000000
      in if n \<ge> 1000000000 then \<lparr>sec = wrap64 (s + 1), nsec = n - 1000000000\<rparr>
         else if n < 0 then \<lparr>sec = wrap64 (s - 1), nsec = n + 1000000000\<rparr>
         else \<lparr>sec = s, nsec = n\<rparr>)"

definition time_Equal :: "Time \<Rightarrow> Time \<Rightarrow> bool" where
  "time_Equal t u \<longleftrightarrow> sec t = sec u \<and> nsec t = nsec u"

definition time_Before :: "Time \<Rightarrow> Time \<Rightarrow> bool" where
  "time_Before t u \<longleftrightarrow> sec t < sec u \<or> (sec t = sec u \<and> nsec t < nsec u)"

definition time_Sub :: "Time \<Rightarrow> Time \<Rightarrow> Duration" where
  "time_Sub t u =
     (let d = wrap64 (wrap64 (wrap64 (sec t - sec u) * Second) + (nsec t - nsec u))
      in if time_Equal (time_Add u d) t then d
         else if time_Before t u then minDuration
         else maxDuration)"

text \<open>A wall-clock reading as \<open>time.Now()\<close> can return it.\<close>

definition valid_Time :: "Time \<Rightarrow> bool" where
  "valid_Time t \<longleftrightarrow> is_int64 (sec t) \<and> 0 \<le> nsec t \<and> nsec t < 1000000000"

text \<open>The instant of a reading in nanoseconds since the Unix epoch, as a mathematical integer.\<close>

definition unix_nanos :: "Time \<Rightarrow> int" where
  "unix_nanos t = (sec t - unixToInternal) * 1000000000 + nsec t"

subsection \<open>Errors\<close>

text \<open>
  A Go \<open>error\<close> is \<open>redis.Nil\<close> (the reply for a missing key) or carries a message:
  what \<open>fmt.Errorf\<close> builds and what the Redis client reports when a command fails.
\<close>

datatype error = redis_Nil | errorString string

fun Error :: "error \<Rightarrow> string" where
  "Error redis_Nil = ''redis: nil''"
| "Error (errorString m) = m"

section \<open>The expiration translator\<close>

record ttl =
  secs :: Duration
  unlimited :: bool
  past :: bool

definition ttl_zero :: ttl where
  "ttl_zero = \<lparr>secs = 0, unlimited = False, past = False\<rparr>"

text \<open>
  \<open>expirationParser\<close>; the reading of \<open>time.Now()\<close> is the argument \<open>now\<close>.
\<close>

definition expirationParser :: "Time \<Rightarrow> int \<Rightarrow> error + ttl" where
  "expirationParser now t =
     (if t = 0 then Inr (ttl_zero\<lparr>unlimited := True\<rparr>)
      else if t > 2592000 then
        (let expire_at = time_Unix t 0;
             d = time_Sub expire_at now
         in Inr (ttl_zero\<lparr>secs := d, past := (d \<le> 0)\<rparr>))
      else if t < 0 then Inl (errorString ''Expiration cannot be negative'')
      else Inr (ttl_zero\<lparr>secs := wrap64 (t * Second)\<rparr>))"


section \<open>Requests, responses and the backend\<close>

subsection \<open>Package \<open>protocol\<close>\<close>

text \<open>
  Modelled from the spec: the declarations of \<open>McRequest\<close>, \<open>McValue\<close> and
  \<open>McResponse\<close> in the codec package \<open>../protocol\<close>, which is not among the sources.
  A request has a command name, one key or a list of keys, a value payload, an
  expiration, an increment and a no-reply flag; a response has a status line and a
  sequence of value entries. The fields are those the daemon reads and writes; a
  value entry is built positionally from the key, the flags and the bytes.
\<close>

record McRequest =
  Command :: string
  Key :: string
  Keys :: "string list"
  Value :: string
  Exptime :: int
  Increment :: int
  Noreply :: bool

record McValue =
  VKey :: string
  VFlags :: string
  VData :: string

record McResponse =
  Response :: string
  Values :: "McValue list"

definition McResponse_zero :: McResponse where
  "McResponse_zero = \<lparr>Response = [], Values = []\<rparr>"

subsection \<open>The Redis client\<close>

text \<open>
  Every command of the client returns a reply carrying a value and an error
  (\<open>Val()\<close>, \<open>Err()\<close>; \<open>Result()\<close> returns both). The server behind the client
  is any state \<open>'s\<close> with one transition per command.
\<close>

type_synonym 'a cmd = "'a \<times> error option"

definition Val :: "'a cmd \<Rightarrow> 'a" where
  "Val r = fst r"

definition Err :: "'a cmd \<Rightarrow> error option" where
  "Err r = snd r"

record 's redis_Client =
  redis_Get :: "string \<Rightarrow> 's \<Rightarrow> string cmd \<times> 's"
  redis_Set :: "string \<Rightarrow> string \<Rightarrow> Duration \<Rightarrow> 's \<Rightarrow> string cmd \<times> 's"
  redis_Expire :: "string \<Rightarrow> Duration \<Rightarrow> 's \<Rightarrow> bool cmd \<times> 's"
  redis_SetNX :: "string \<Rightarrow> string \<Rightarrow> Duration \<Rightarrow> 's \<Rightarrow> bool cmd \<times> 's"
  redis_Del :: "string \<Rightarrow> 's \<Rightarrow> int cmd \<times> 's"
  redis_Exists :: "string \<Rightarrow> 's \<Rightarrow> bool cmd \<times> 's"
  redis_IncrBy :: "string \<Rightarrow> int \<Rightarrow> 's \<Rightarrow> int cmd \<times> 's"
  redis_DecrBy :: "string \<Rightarrow> int \<Rightarrow> 's \<Rightarrow> int cmd \<times> 's"
  redis_FlushAll :: "'s \<Rightarrow> string cmd \<times> 's"

text \<open>
  What a handler can touch: the state of the store behind the global \<open>backend\<close>, the
  commands sent to it so far, in order, and the clock that \<open>time.Now()\<close> reads.
\<close>

datatype call =
  Call_Get string
  | Call_Set string string Duration
  | Call_Expire string Duration
  | Call_SetNX string string Duration
  | Call_Del string
  | Call_Exists string
  | Call_IncrBy string int
  | Call_DecrBy string int
  | Call_FlushAll

record 's world =
  store :: 's
  calls :: "call list"
  clock :: Time

definition sent :: "call \<Rightarrow> ('s \<Rightarrow> 'a cmd \<times> 's) \<Rightarrow> 's world \<Rightarrow> 'a cmd \<times> 's world" where
  "sent c f w =
     (let (r, s') = f (store w) in (r, w\<lparr>store := s', calls := calls w @ [c]\<rparr>))"

definition backend_Get :: "'s redis_Client \<Rightarrow> string \<Rightarrow> 's world \<Rightarrow> string cmd \<times> 's world" where
  "backend_Get b key = sent (Call_Get key) (redis_Get b key)"

definition backend_Set ::
  "'s redis_Client \<Rightarrow> string \<Rightarrow> string \<Rightarrow> Duration \<Rightarrow> 's world \<Rightarrow> string cmd \<times> 's world" where
  "backend_Set b key v d = sent (Call_Set key v d) (redis_Set b key v d)"

definition backend_Expire ::
  "'s redis_Client \<Rightarrow> string \<Rightarrow> Duration \<Rightarrow> 's world \<Rightarrow> bool cmd \<times> 's world" where
  "backend_Expire b key d = sent (Call_Expire key d) (redis_Expire b key d)"

definition backend_SetNX ::
  "'s redis_Client \<Rightarrow> string \<Rightarrow> string \<Rightarrow> Duration \<Rightarrow> 's world \<Rightarrow> bool cmd \<times> 's world" where
  "backend_SetNX b key v d = sent (Call_SetNX key v d) (redis_SetNX b key v d)"

definition backend_Del :: "'s redis_Client \<Rightarrow> string \<Rightarrow> 's world \<Rightarrow> int cmd \<times> 's world" where
  "backend_Del b key = sent (Call_Del key) (redis_Del b key)"

definition backend_Exists :: "'s redis_Client \<Rightarrow> string \<Rightarrow> 's world \<Rightarrow> bool cmd \<times> 's world" where
  "backend_Exists b key = sent (Call_Exists key) (redis_Exists b key)"

definition backend_IncrBy ::
  "'s redis_Client \<Rightarrow> string \<Rightarrow> int \<Rightarrow> 's world \<Rightarrow> int cmd \<times> 's world" where
  "backend_IncrBy b key n = sent (Call_IncrBy key n) (redis_IncrBy b key n)"

definition backend_DecrBy ::
  "'s redis_Client \<Rightarrow> string \<Rightarrow> int \<Rightarrow> 's world \<Rightarrow> int cmd \<times> 's world" where
  "backend_DecrBy b key n = sent (Call_DecrBy key n) (redis_DecrBy b key n)"

definition backend_FlushAll :: "'s redis_Client \<Rightarrow> 's world \<Rightarrow> string cmd \<times> 's world" where
  "backend_FlushAll b = sent Call_FlushAll (redis_FlushAll b)"

subsection \<open>\<open>strconv.FormatInt\<close> in base 10\<close>

definition digit_char :: "nat \<Rightarrow> char" where
  "digit_char d = char_of (48 + d)"

fun decimal :: "nat \<Rightarrow> string" where
  "decimal n = (if n < 10 then [digit_char n] else decimal (n div 10) @ [digit_char (n mod 10)])"

definition FormatInt :: "int \<Rightarrow> string" where
  "FormatInt i = (if i < 0 then CHR ''-'' # decimal (nat (- i)) else decimal (nat i))"

section \<open>Command handlers\<close>

text \<open>
  A handler receives the request and the response under construction; it returns its
  error (\<open>None\<close> for \<open>nil\<close>), the response as it left it, and the world after its
  backend calls.
\<close>

type_synonym 'w HandlerFn = "McRequest \<Rightarrow> McResponse \<Rightarrow> 'w \<Rightarrow> error option \<times> McResponse \<times> 'w"

fun GetHandler_keys ::
  "'s redis_Client \<Rightarrow> string list \<Rightarrow> McResponse \<Rightarrow> 's world
    \<Rightarrow> error option \<times> McResponse \<times> 's world" where
  "GetHandler_keys b [] res w = (None, res, w)"
| "GetHandler_keys b (key # keys) res w =
     (case backend_Get b key w of (r, w1) \<Rightarrow>
        if Err r = Some redis_Nil then GetHandler_keys b keys res w1
        else if Err r \<noteq> None then (Err r, res, w1)
        else GetHandler_keys b keys
               (res\<lparr>Values := Values res @ [\<lparr>VKey = key, VFlags = ''0'', VData = Val r\<rparr>]\<rparr>) w1)"

definition GetHandler :: "'s redis_Client \<Rightarrow> 's world HandlerFn" where
  "GetHandler b req res w =
     (case GetHandler_keys b (Keys req) res w of
        (Some e, res1, w1) \<Rightarrow> (Some e, res1, w1)
      | (None, res1, w1) \<Rightarrow> (None, res1\<lparr>Response := ''END''\<rparr>, w1))"

definition SetHandler :: "'s redis_Client \<Rightarrow> 's world HandlerFn" where
  "SetHandler b req res w =
     (case expirationParser (clock w) (Exptime req) of
        Inl e \<Rightarrow> (Some e, res, w)
      | Inr exp \<Rightarrow>
          if past exp then
            (case backend_Expire b (Key req) (secs exp) w of
               (r, w1) \<Rightarrow> (None, res\<lparr>Response := ''STORED''\<rparr>, w1))
          else
            (case backend_Set b (Key req) (Value req) (secs exp) w of
               (r, w1) \<Rightarrow>
                 if Err r \<noteq> None then (Err r, res, w1)
                 else (None, res\<lparr>Response := ''STORED''\<rparr>, w1)))"

definition AddHandler :: "'s redis_Client \<Rightarrow> 's world HandlerFn" where
  "AddHandler b req res w =
     (case expirationParser (clock w) (Exptime req) of
        Inl e \<Rightarrow> (Some e, res, w)
      | Inr exp \<Rightarrow>
          (case backend_SetNX b (Key req) (Value req) (secs exp) w of
             (result, w1) \<Rightarrow>
               if Err result \<noteq> None then (Err result, res, w1)
               else if Val result then (None, res\<lparr>Response := ''STORED''\<rparr>, w1)
               else (None, res\<lparr>Response := ''NOT_STORED''\<rparr>, w1)))"

definition DeleteHandler :: "'s redis_Client \<Rightarrow> 's world HandlerFn" where
  "DeleteHandler b req res w =
     (case backend_Del b (Key req) w of
        (result, w1) \<Rightarrow>
          if Err result \<noteq> None then (Err result, res, w1)
          else if Val result > 0 then (None, res\<lparr>Response := ''DELETED''\<rparr>, w1)
          else (None, res\<lparr>Response := ''NOT_FOUND''\<rparr>, w1))"

definition IncrHandler :: "'s redis_Client \<Rightarrow> 's world HandlerFn" where
  "IncrHandler b req res w =
     (case backend_Exists b (Key req) w of
        (exists, w1) \<Rightarrow>
          if \<not> Val exists then (None, res\<lparr>Response := ''NOT_FOUND''\<rparr>, w1)
          else
            (case backend_IncrBy b (Key req) (Increment req) w1 of
               (result, w2) \<Rightarrow>
                 if Err result \<noteq> None then (Err result, res, w2)
                 else (None, res\<lparr>Response := FormatInt (Val result)\<rparr>, w2)))"

definition DecrHandler :: "'s redis_Client \<Rightarrow> 's world HandlerFn" where
  "DecrHandler b req res w =
     (case backend_Exists b (Key req) w of
        (exists, w1) \<Rightarrow>
          if \<not> Val exists then (None, res\<lparr>Response := ''NOT_FOUND''\<rparr>, w1)
          else
            (case backend_DecrBy b (Key req) (Increment req) w1 of
               (result, w2) \<Rightarrow>
                 if Err result \<noteq> None then (Err result, res, w2)
                 else (None, res\<lparr>Response := FormatInt (Val result)\<rparr>, w2)))"

definition FlushAllHandler :: "'s redis_Client \<Rightarrow> 's world HandlerFn" where
  "FlushAllHandler b req res w =
     (case backend_FlushAll b w of
        (result, w1) \<Rightarrow>
          if Err result \<noteq> None then (Err result, res, w1)
          else (None, res\<lparr>Response := ''OK''\<rparr>, w1))"

definition VersionHandler :: "'s world HandlerFn" where
  "VersionHandler req res w = (None, res\<lparr>Response := ''VERSION redcached-0.1''\<rparr>, w)"

text \<open>The handlers of the daemon, as a dispatch table can hold them.\<close>

definition handlers :: "'s redis_Client \<Rightarrow> 's world HandlerFn list" where
  "handlers b =
     [GetHandler b, SetHandler b, AddHandler b, DeleteHandler b, IncrHandler b,
      DecrHandler b, FlushAllHandler b, VersionHandler]"

section \<open>The connection's serve loop\<close>

text \<open>
  \<open>strings.ToLower\<close> on the bytes of an ASCII command name. The properties of the
  loop below use only its result, never how it is computed.
\<close>

definition strings_ToLower :: "string \<Rightarrow> string" where
  "strings_ToLower s =
     map (\<lambda>c. if 65 \<le> (of_char c :: nat) \<and> (of_char c :: nat) \<le> 90
              then char_of ((of_char c :: nat) + 32) else c) s"

definition CRLF :: string where
  "CRLF = [CHR 0x0D, CHR 0x0A]"

text \<open>
  Modelled from the spec: the outcomes of one call of the codec's
  \<open>protocol.ReadRequest\<close>, which is not among the sources, as the loop tells them
  apart: a request, a \<open>protocol.ProtocolError\<close> with its message, \<open>io.EOF\<close>, or any
  other error.
\<close>

datatype read_result =
  Request McRequest
  | ProtocolError string
  | EOF
  | ReadError error

text \<open>
  The loop either waits for the next request (\<open>Reading\<close>) or has returned, with the
  error it returns, and closed the connection through its deferred \<open>conn.Close()\<close>.
\<close>

datatype serve_state = Reading | Closed "error option"

text \<open>
  The dispatch of one request, after the \<open>quit\<close> test: the response starts empty, the
  handler found under \<open>cmd\<close> runs, and \<open>out\<close> collects every string written and
  flushed to the connection. \<open>enc\<close> is the codec's \<open>McResponse.Protocol()\<close>.
\<close>

definition dispatch ::
  "(McResponse \<Rightarrow> string) \<Rightarrow> (string \<rightharpoonup> 'w HandlerFn) \<Rightarrow> McRequest \<Rightarrow> string
    \<Rightarrow> string list \<Rightarrow> 'w \<Rightarrow> string list \<times> 'w" where
  "dispatch enc methods req cmd out w =
     (case methods cmd of
        Some fn \<Rightarrow>
          (case fn req McResponse_zero w of
             (err, res, w1) \<Rightarrow>
               (let res1 = (case err of
                              Some e \<Rightarrow> res\<lparr>Response := ''SERVER_ERROR '' @ Error e\<rparr>
                            | None \<Rightarrow> res)
                in if \<not> Noreply req then (out @ [enc res1], w1) else (out, w1)))
      | None \<Rightarrow>
          (out @ [enc (McResponse_zero
             \<lparr>Response := ''ERROR not implemented cmd '' @ [CHR 0x27] @ cmd @ [CHR 0x27]
                 @ '' in handler''\<rparr>)], w))"

text \<open>
  \<open>Client.Serve\<close> over the results of the successive reads. When they run out the
  loop is blocked in the next read.
\<close>

fun Serve ::
  "(McResponse \<Rightarrow> string) \<Rightarrow> (string \<rightharpoonup> 'w HandlerFn) \<Rightarrow> read_result list
    \<Rightarrow> string list \<Rightarrow> 'w \<Rightarrow> serve_state \<times> string list \<times> 'w" where
  "Serve enc methods [] out w = (Reading, out, w)"
| "Serve enc methods (ProtocolError perr # rs) out w =
     Serve enc methods rs (out @ [''CLIENT_ERROR '' @ perr @ CRLF]) w"
| "Serve enc methods (EOF # rs) out w = (Closed None, out, w)"
| "Serve enc methods (ReadError e # rs) out w = (Closed (Some e), out, w)"
| "Serve enc methods (Request req # rs) out w =
     (let cmd = strings_ToLower (Command req)
      in if cmd = ''quit'' then (Closed None, out, w)
         else (case dispatch enc methods req cmd out w of
                 (out1, w1) \<Rightarrow> Serve enc methods rs out1 w1))"

section \<open>Vocabulary of the properties\<close>

text \<open>A mathematical difference of instants brought into the range of a \<open>Duration\<close>.\<close>

definition clamp64 :: "int \<Rightarrow> int" where
  "clamp64 x = max minDuration (min maxDuration x)"

text \<open>Fetching every key of a list in order, each reply kept with its key.\<close>

fun fetch_all ::
  "'s redis_Client \<Rightarrow> string list \<Rightarrow> 's world \<Rightarrow> (string \<times> string cmd) list \<times> 's world" where
  "fetch_all b [] w = ([], w)"
| "fetch_all b (key # keys) w =
     (case backend_Get b key w of
        (r, w1) \<Rightarrow> (case fetch_all b keys w1 of (rs, w2) \<Rightarrow> ((key, r) # rs, w2)))"

text \<open>A reply is a failure when it carries an error other than \<open>redis.Nil\<close>.\<close>

definition failure :: "'a cmd \<Rightarrow> bool" where
  "failure r = (case Err r of None \<Rightarrow> False | Some e \<Rightarrow> e \<noteq> redis_Nil)"

text \<open>The value entries of the replies that found their key.\<close>

definition value_entries :: "(string \<times> string cmd) list \<Rightarrow> McValue list" where
  "value_entries rs =
     map (\<lambda>(key, r). \<lparr>VKey = key, VFlags = ''0'', VData = Val r\<rparr>)
       (filter (\<lambda>(key, r). Err r = None) rs)"

text \<open>The read results that end the loop, and the error each one makes it return.\<close>

fun terminal :: "read_result \<Rightarrow> bool" where
  "terminal EOF = True"
| "terminal (ReadError e) = True"
| "terminal (Request req) = (strings_ToLower (Command req) = ''quit'')"
| "terminal (ProtocolError perr) = False"

fun surfaced :: "read_result \<Rightarrow> error option" where
  "surfaced (ReadError e) = Some e"
| "surfaced r = None"

section \<open>Two backends for examples\<close>

text \<open>
  An in-memory store without expiry, enough to run the handlers on: a map from keys
  to values, where a non-positive expiry deletes the key.
\<close>

fun parse_decimal :: "string \<Rightarrow> nat \<Rightarrow> nat option" where
  "parse_decimal [] acc = Some acc"
| "parse_decimal (c # cs) acc =
     (if 48 \<le> (of_char c :: nat) \<and> (of_char c :: nat) \<le> 57
      then parse_decimal cs (10 * acc + ((of_char c :: nat) - 48)) else None)"

definition ParseInt :: "string \<Rightarrow> int option" where
  "ParseInt s =
     (case s of
        [] \<Rightarrow> None
      | c # cs \<Rightarrow>
          if c = CHR ''-'' then (if cs = [] then None else map_option (\<lambda>n. - int n) (parse_decimal cs 0))
          else map_option int (parse_decimal s 0))"

definition not_an_integer :: error where
  "not_an_integer = errorString ''ERR value is not an integer or out of range''"

definition mem_IncrBy :: "string \<Rightarrow> int \<Rightarrow> (string \<rightharpoonup> string) \<Rightarrow> int cmd \<times> (string \<rightharpoonup> string)" where
  "mem_IncrBy key n s =
     (case s key of
        None \<Rightarrow> ((n, None), s(key \<mapsto> FormatInt n))
      | Some v \<Rightarrow>
          (case ParseInt v of
             None \<Rightarrow> ((0, Some not_an_integer), s)
           | Some i \<Rightarrow> ((i + n, None), s(key \<mapsto> FormatInt (i + n)))))"

definition mem_Client :: "(string \<rightharpoonup> string) redis_Client" where
  "mem_Client =
     \<lparr>redis_Get = (\<lambda>key s. case s key of
                      None \<Rightarrow> (([], Some redis_Nil), s)
                    | Some v \<Rightarrow> ((v, None), s)),
      redis_Set = (\<lambda>key v d s. ((''OK'', None), s(key \<mapsto> v))),
      redis_Expire = (\<lambda>key d s. ((s key \<noteq> None, None), if d \<le> 0 then s(key := None) else s)),
      redis_SetNX = (\<lambda>key v d s. case s key of
                      None \<Rightarrow> ((True, None), s(key \<mapsto> v))
                    | Some old \<Rightarrow> ((False, None), s)),
      redis_Del = (\<lambda>key s. ((if s key = None then 0 else 1, None), s(key := None))),
      redis_Exists = (\<lambda>key s. ((s key \<noteq> None, None), s)),
      redis_IncrBy = mem_IncrBy,
      redis_DecrBy = (\<lambda>key n. mem_IncrBy key (- n)),
      redis_FlushAll = (\<lambda>s. ((''OK'', None), Map.empty))\<rparr>"

text \<open>A client whose server cannot be reached: every command fails with the zero value.\<close>

definition refused :: error where
  "refused = errorString ''dial tcp: connection refused''"

definition down_Client :: "unit redis_Client" where
  "down_Client =
     \<lparr>redis_Get = (\<lambda>key s. (([], Some refused), s)),
      redis_Set = (\<lambda>key v d s. (([], Some refused), s)),
      redis_Expire = (\<lambda>key d s. ((False, Some refused), s)),
      redis_SetNX = (\<lambda>key v d s. ((False, Some refused), s)),
      redis_Del = (\<lambda>key s. ((0, Some refused), s)),
      redis_Exists = (\<lambda>key s. ((False, Some refused), s)),
      redis_IncrBy = (\<lambda>key n s. ((0, Some refused), s)),
      redis_DecrBy = (\<lambda>key n s. ((0, Some refused), s)),
      redis_FlushAll = (\<lambda>s. (([], Some refused), s))\<rparr>"

text \<open>The in-memory store behind a client that cannot read the key \<open>bad\<close>.\<close>

definition flaky_Client :: "(string \<rightharpoonup> string) redis_Client" where
  "flaky_Client =
     mem_Client\<lparr>redis_Get :=
       (\<lambda>key s. if key = ''bad'' then (([], Some refused), s) else redis_Get mem_Client key s)\<rparr>"

text \<open>
  Modelled from the spec: the codec's \<open>McResponse.Protocol()\<close>, which is not among the
  sources, as the wire format describes it: one \<open>VALUE\<close> line and one data line for
  each value entry, then the status line. Only the examples use it; the properties
  of the loop hold for any encoding.
\<close>

definition wire :: "McResponse \<Rightarrow> string" where
  "wire res =
     concat (map (\<lambda>v. ''VALUE '' @ VKey v @ '' '' @ VFlags v @ '' ''
                        @ FormatInt (int (length (VData v))) @ CRLF @ VData v @ CRLF)
               (Values res))
     @ Response res @ CRLF"

text \<open>An empty request, a clock reading (Unix second 1700000000) and a fresh world.\<close>

definition request :: McRequest where
  "request = \<lparr>Command = [], Key = [], Keys = [], Value = [], Exptime = 0, Increment = 0,
     Noreply = False\<rparr>"

definition noon :: Time where
  "noon = \<lparr>sec = 63835596800, nsec = 0\<rparr>"

definition world0 :: "'s \<Rightarrow> 's world" where
  "world0 s = \<lparr>store = s, calls = [], clock = noon\<rparr>"

text \<open>
  Modelled from the spec: the dispatch table built by the server, which is not among
  the sources, with the command names of the wire format, over the in-memory store.
  Only the examples use it; the properties of the loop hold for any table.
\<close>

definition table :: "string \<rightharpoonup> (string \<rightharpoonup> string) world HandlerFn" where
  "table =
     [''get'' \<mapsto> GetHandler mem_Client, ''set'' \<mapsto> SetHandler mem_Client,
      ''add'' \<mapsto> AddHandler mem_Client, ''delete'' \<mapsto> DeleteHandler mem_Client,
      ''incr'' \<mapsto> IncrHandler mem_Client, ''decr'' \<mapsto> DecrHandler mem_Client,
      ''flush_all'' \<mapsto> FlushAllHandler mem_Client, ''version'' \<mapsto> VersionHandler]"

section \<open>Properties of the expiration translator\<close>

subsection \<open>Wrap-around and the standard library's time arithmetic\<close>

lemma wrap64_id: "is_int64 x \<Longrightarrow> wrap64 x = x"
  by (simp add: wrap64_def is_int64_def)

lemma wrap64_mod: "wrap64 x mod 2 ^ 64 = x mod 2 ^ 64"
proof -
  have "wrap64 x = (x + 2 ^ 63) mod 2 ^ 64 + 2 ^ 63 - 2 ^ 64" by (simp add: wrap64_def)
  then have "wrap64 x mod 2 ^ 64 = ((x + 2 ^ 63) mod 2 ^ 64 + 2 ^ 63) mod 2 ^ 64"
    by (metis mod_diff_right_eq mod_self diff_zero)
  also have "\<dots> = (x + 2 ^ 63 + 2 ^ 63) mod 2 ^ 64" by (simp add: mod_simps)
  also have "\<dots> = x mod 2 ^ 64" by simp
  finally show ?thesis .
qed

lemma wrap64_cong: "a mod 2 ^ 64 = b mod 2 ^ 64 \<Longrightarrow> wrap64 a = wrap64 b"
  unfolding wrap64_def by (metis mod_add_left_eq)

lemma wrap64_add_left: "wrap64 (wrap64 a + b) = wrap64 (a + b)"
  by (rule wrap64_cong) (metis mod_add_left_eq wrap64_mod)

lemma wrap64_mult_left: "wrap64 (wrap64 a * b) = wrap64 (a * b)"
  by (rule wrap64_cong) (metis mod_mult_left_eq wrap64_mod)

lemma time_Unix_0: "time_Unix s 0 = \<lparr>sec = wrap64 (s + unixToInternal), nsec = 0\<rparr>"
  by (simp add: time_Unix_def)

lemma sub_diff: "wrap64 (wrap64 (wrap64 (a - b) * Second) + c) = wrap64 ((a - b) * Second + c)"
  by (simp only: wrap64_mult_left wrap64_add_left)


lemma time_Add_back:
  assumes t: "valid_Time t" and u: "valid_Time u"
  shows "time_Add u ((sec t - sec u) * 1000000000 + (nsec t - nsec u)) = t"
proof -
  define D where "D = (sec t - sec u) * 1000000000 + (nsec t - nsec u)"
  define q where "q = D sdiv 1000000000"
  define r where "r = D smod 1000000000"
  define k where "k = sec t - sec u - q"
  have D: "q * 1000000000 + r = D"
    unfolding q_def r_def by (rule sdiv_mult_smod_eq)
  have r: "- 1000000000 < r" "r < 1000000000"
    using smod_int_range [where a = D and b = 1000000000] by (simp_all add: r_def)
  have nt: "0 \<le> nsec t" "nsec t < 1000000000" and nu: "0 \<le> nsec u" "nsec u < 1000000000"
    using t u by (simp_all add: valid_Time_def)
  have k: "k * 1000000000 = nsec u + r - nsec t"
    using D by (simp add: k_def D_def algebra_simps)
  have st: "wrap64 (sec t) = sec t"
    using t by (simp add: valid_Time_def wrap64_id)
  have s1: "wrap64 (wrap64 (sec u + q) + 1) = wrap64 (sec u + q + 1)"
    by (rule wrap64_add_left)
  have s2: "wrap64 (wrap64 (sec u + q) - 1) = wrap64 (sec u + q - 1)"
    using wrap64_add_left [of "sec u + q" "- 1"] by simp
  consider (hi) "nsec u + r \<ge> 1000000000" | (lo) "nsec u + r < 0"
    | (mid) "0 \<le> nsec u + r" "nsec u + r < 1000000000" by linarith
  then have "time_Add u D = t"
  proof cases
    case hi
    then have "k = 1" using k r nt nu by arith
    then have "sec u + q + 1 = sec t" "nsec u + r - 1000000000 = nsec t"
      using k by (simp_all add: k_def)
    then show ?thesis
      using hi st by (simp add: time_Add_def q_def [symmetric] r_def [symmetric] s1)
  next
    case lo
    then have "k = - 1" using k r nt nu by arith
    then have "sec u + q - 1 = sec t" "nsec u + r + 1000000000 = nsec t"
      using k by (simp_all add: k_def)
    then show ?thesis
      using lo st by (simp add: time_Add_def q_def [symmetric] r_def [symmetric] s2)
  next
    case mid
    then have "k = 0" using k r nt nu by arith
    then have "sec u + q = sec t" "nsec u + r = nsec t"
      using k by (simp_all add: k_def)
    then show ?thesis
      using mid st by (simp add: time_Add_def q_def [symmetric] r_def [symmetric])
  qed
  then show ?thesis by (simp add: D_def)
qed

lemma time_Sub_exact:
  assumes t: "valid_Time t" and u: "valid_Time u"
    and D: "is_int64 ((sec t - sec u) * 1000000000 + (nsec t - nsec u))"
  shows "time_Sub t u = (sec t - sec u) * 1000000000 + (nsec t - nsec u)"
proof -
  define D where "D = (sec t - sec u) * 1000000000 + (nsec t - nsec u)"
  have "wrap64 (wrap64 (wrap64 (sec t - sec u) * Second) + (nsec t - nsec u))
      = wrap64 ((sec t - sec u) * Second + (nsec t - nsec u))"
    by (rule sub_diff)
  also have "\<dots> = wrap64 D" by (simp add: D_def Second_def)
  also have "\<dots> = D" using D by (simp add: D_def wrap64_id)
  finally have d: "wrap64 (wrap64 (wrap64 (sec t - sec u) * Second) + (nsec t - nsec u)) = D" .
  have addback: "time_Add u D = t"
    unfolding D_def by (rule time_Add_back [OF t u])
  have "time_Sub t u = D"
    unfolding time_Sub_def d by (simp add: addback time_Equal_def)
  then show ?thesis by (simp add: D_def)
qed

lemma wrap64_range: "is_int64 (wrap64 x)"
proof -
  have "0 \<le> (x + 2 ^ 63) mod 2 ^ 64" and "(x + 2 ^ 63) mod 2 ^ 64 < (2 ^ 64 :: int)"
    by simp_all
  then show ?thesis
    by (simp add: wrap64_def is_int64_def)
qed

lemma clamp64_id: "is_int64 x \<Longrightarrow> clamp64 x = x"
  by (simp add: clamp64_def is_int64_def minDuration_def maxDuration_def)

lemma time_Add_instant:
  assumes u: "valid_Time u" and lo: "- (2 ^ 62) \<le> sec u" and hi: "sec u \<le> 2 ^ 62"
    and d: "is_int64 d"
  shows "sec (time_Add u d) * 1000000000 + nsec (time_Add u d)
       = sec u * 1000000000 + nsec u + d"
proof -
  define q where "q = d sdiv 1000000000"
  define r where "r = d smod 1000000000"
  have D: "q * 1000000000 + r = d"
    unfolding q_def r_def by (rule sdiv_mult_smod_eq)
  have r: "- 1000000000 < r" "r < 1000000000"
    using smod_int_range [where a = d and b = 1000000000] by (simp_all add: r_def)
  have dr: "- 9223372036854775808 \<le> d" "d < 9223372036854775808"
    using d by (simp_all add: is_int64_def)
  have q: "- 9223372038 \<le> q" "q \<le> 9223372038"
    using D r dr by arith+
  have lo': "- 4611686018427387904 \<le> sec u" and hi': "sec u \<le> 4611686018427387904"
    using lo hi by simp_all
  have "is_int64 (sec u + q)" "is_int64 (sec u + q + 1)" "is_int64 (sec u + q - 1)"
    using q lo' hi' by (simp_all add: is_int64_def)
  then have w: "wrap64 (sec u + q) = sec u + q"
    "wrap64 (sec u + q + 1) = sec u + q + 1"
    "wrap64 (sec u + q - 1) = sec u + q - 1"
    by (simp_all add: wrap64_id)
  show ?thesis
    using D by (simp add: time_Add_def q_def [symmetric] r_def [symmetric] w Let_def)
qed

lemma time_Before_iff:
  assumes "valid_Time t" and "valid_Time u"
  shows "time_Before t u \<longleftrightarrow> (sec t - sec u) * 1000000000 + (nsec t - nsec u) < 0"
proof -
  have n: "0 \<le> nsec t" "nsec t < 1000000000" "0 \<le> nsec u" "nsec u < 1000000000"
    using assms by (simp_all add: valid_Time_def)
  consider "sec t < sec u" | "sec t = sec u" | "sec u < sec t" by linarith
  then show ?thesis
  proof cases
    case 1
    then have "(sec t - sec u) * 1000000000 \<le> - 1000000000" by simp
    with 1 n show ?thesis by (simp add: time_Before_def)
  next
    case 2
    then show ?thesis by (simp add: time_Before_def)
  next
    case 3
    then have "(sec t - sec u) * 1000000000 \<ge> 1000000000" by simp
    with 3 n show ?thesis by (simp add: time_Before_def)
  qed
qed

lemma time_Sub_clamped:
  assumes t: "valid_Time t" and u: "valid_Time u"
    and lo: "- (2 ^ 62) \<le> sec u" and hi: "sec u \<le> 2 ^ 62"
  shows "time_Sub t u = clamp64 ((sec t - sec u) * 1000000000 + (nsec t - nsec u))"
proof (cases "is_int64 ((sec t - sec u) * 1000000000 + (nsec t - nsec u))")
  case True
  then show ?thesis
    using time_Sub_exact [OF t u] by (simp add: clamp64_id)
next
  case False
  define D where "D = (sec t - sec u) * 1000000000 + (nsec t - nsec u)"
  define d where "d = wrap64 D"
  have dd: "wrap64 (wrap64 (wrap64 (sec t - sec u) * Second) + (nsec t - nsec u)) = d"
    by (simp only: sub_diff) (simp add: d_def D_def Second_def)
  have "is_int64 d" unfolding d_def by (rule wrap64_range)
  then have inst: "sec (time_Add u d) * 1000000000 + nsec (time_Add u d)
       = sec u * 1000000000 + nsec u + d"
    by (rule time_Add_instant [OF u lo hi])
  have ne: "\<not> time_Equal (time_Add u d) t"
  proof
    assume "time_Equal (time_Add u d) t"
    then have "sec (time_Add u d) = sec t" "nsec (time_Add u d) = nsec t"
      by (simp_all add: time_Equal_def)
    with inst have "d = D" by (simp add: D_def algebra_simps)
    with \<open>is_int64 d\<close> False show False by (simp add: D_def)
  qed
  have sub: "time_Sub t u = (if D < 0 then minDuration else maxDuration)"
    unfolding time_Sub_def dd using ne time_Before_iff [OF t u]
    by (simp add: D_def)
  from False have "D < - (2 ^ 63) \<or> 2 ^ 63 \<le> D"
    by (auto simp: is_int64_def D_def)
  then have "clamp64 D = (if D < 0 then minDuration else maxDuration)"
    by (auto simp: clamp64_def minDuration_def maxDuration_def)
  with sub show ?thesis by (simp add: D_def)
qed

lemma clamp64_sign: "clamp64 x \<le> 0 \<longleftrightarrow> x \<le> 0"
  by (auto simp: clamp64_def minDuration_def maxDuration_def)

lemma time_Sub_saturates_example:
  "time_Sub \<lparr>sec = 82135596800, nsec = 0\<rparr> \<lparr>sec = 63835596800, nsec = 0\<rparr> = maxDuration"
proof -
  have q: "(- 146744073709551616 :: int) sdiv 1000000000 = - 146744073"
    by (simp add: signed_divide_int_def)
  have r: "(- 146744073709551616 :: int) smod 1000000000 = - 709551616"
    by (simp add: signed_modulo_int_def)
  have a: "time_Add \<lparr>sec = 63835596800, nsec = 0\<rparr> (- 146744073709551616)
      = \<lparr>sec = 63688852726, nsec = 290448384\<rparr>"
    by (simp add: time_Add_def q r wrap64_def)
  show ?thesis
    by (simp add: time_Sub_def wrap64_def Second_def a time_Equal_def time_Before_def)
qed

lemma time_Sub_wraps_example:
  "time_Sub \<lparr>sec = - 9223371974719179009, nsec = 0\<rparr> \<lparr>sec = 63835596800, nsec = 0\<rparr>
     = minDuration"
proof -
  have q: "(- 1700000001000000000 :: int) sdiv 1000000000 = - 1700000001"
    by (simp add: signed_divide_int_def)
  have r: "(- 1700000001000000000 :: int) smod 1000000000 = 0"
    by (simp add: signed_modulo_int_def)
  have a: "time_Add \<lparr>sec = 63835596800, nsec = 0\<rparr> (- 1700000001000000000)
      = \<lparr>sec = 62135596799, nsec = 0\<rparr>"
    by (simp add: time_Add_def q r wrap64_def)
  show ?thesis
    by (simp add: time_Sub_def wrap64_def Second_def a time_Equal_def time_Before_def)
qed

subsection \<open>The four cases\<close>

lemma expirationParser_absolute_clamped:
  assumes raw: "2592000 < raw" and now: "valid_Time now"
    and lo: "- (2 ^ 62) \<le> sec now" and hi: "sec now \<le> 2 ^ 62"
    and inst: "is_int64 (raw + unixToInternal)"
  shows "expirationParser now raw =
    Inr \<lparr>secs = clamp64 (raw * 1000000000 - unix_nanos now), unlimited = False,
         past = (raw * 1000000000 - unix_nanos now \<le> 0)\<rparr>"
proof -
  define t where "t = \<lparr>sec = raw + unixToInternal, nsec = 0\<rparr>"
  have u: "time_Unix raw 0 = t"
    using inst by (simp add: time_Unix_0 wrap64_id t_def)
  have vt: "valid_Time t"
    using inst by (simp add: valid_Time_def t_def)
  have D: "(sec t - sec now) * 1000000000 + (nsec t - nsec now)
      = raw * 1000000000 - unix_nanos now"
    by (simp add: t_def unix_nanos_def algebra_simps)
  have "time_Sub t now = clamp64 (raw * 1000000000 - unix_nanos now)"
    using time_Sub_clamped [OF vt now lo hi] unfolding D by simp
  then show ?thesis
    using raw by (simp add: expirationParser_def u ttl_zero_def clamp64_sign)
qed

lemma expirationParser_absolute:
  assumes raw: "2592000 < raw" and now: "valid_Time now"
    and inst: "is_int64 (raw + unixToInternal)"
    and diff: "is_int64 (raw * 1000000000 - unix_nanos now)"
  shows "expirationParser now raw =
    Inr \<lparr>secs = raw * 1000000000 - unix_nanos now, unlimited = False,
         past = (raw * 1000000000 - unix_nanos now \<le> 0)\<rparr>"
proof -
  define t where "t = \<lparr>sec = raw + unixToInternal, nsec = 0\<rparr>"
  have u: "time_Unix raw 0 = t"
    using inst by (simp add: time_Unix_0 wrap64_id t_def)
  have vt: "valid_Time t"
    using inst by (simp add: valid_Time_def t_def)
  have D: "(sec t - sec now) * 1000000000 + (nsec t - nsec now)
      = raw * 1000000000 - unix_nanos now"
    by (simp add: t_def unix_nanos_def algebra_simps)
  have "time_Sub t now = raw * 1000000000 - unix_nanos now"
    using time_Sub_exact [OF vt now] diff unfolding D by simp
  then show ?thesis
    using raw by (simp add: expirationParser_def u ttl_zero_def)
qed

lemma expirationParser_relative:
  assumes "0 < raw" and "raw \<le> 2592000"
  shows "expirationParser now raw =
    Inr \<lparr>secs = raw * 1000000000, unlimited = False, past = False\<rparr>"
proof -
  have "is_int64 (raw * 1000000000)"
    using assms by (simp add: is_int64_def)
  then have "wrap64 (raw * Second) = raw * 1000000000"
    by (simp add: Second_def wrap64_id)
  then show ?thesis
    using assms by (simp add: expirationParser_def ttl_zero_def)
qed

text \<open>
  Claim C1, as the code has it. For every expiration \<open>raw\<close>: \<open>raw = 0\<close> gives an
  unlimited TTL with no duration; \<open>raw < 0\<close> gives the error "Expiration cannot be
  negative" and no TTL; \<open>0 < raw \<le> 2592000\<close> gives a duration of exactly \<open>raw\<close>
  seconds, neither unlimited nor past. For \<open>raw > 2592000\<close> whose Unix instant is
  representable (\<open>raw + 62135596800\<close> seconds fit an \<open>int64\<close>) the result is always a
  TTL that is not unlimited; with a clock within \<open>2^62\<close> seconds of year 1, \<open>past\<close> is
  set exactly when the instant \<open>raw\<close> is at or before now, and the duration is the
  difference from now to that instant, brought into the range of a \<open>Duration\<close>; whenever
  the difference in nanoseconds fits an \<open>int64\<close>, the duration is that difference
  itself.
\<close>

theorem expirationParser_cases:
  "(raw = 0 \<longrightarrow>
      expirationParser now raw = Inr \<lparr>secs = 0, unlimited = True, past = False\<rparr>)
   \<and> (raw < 0 \<longrightarrow>
      expirationParser now raw = Inl (errorString ''Expiration cannot be negative''))
   \<and> (2592000 < raw \<and> is_int64 (raw + unixToInternal) \<and> valid_Time now
        \<and> - (2 ^ 62) \<le> sec now \<and> sec now \<le> 2 ^ 62 \<longrightarrow>
      expirationParser now raw =
        Inr \<lparr>secs = clamp64 (raw * 1000000000 - unix_nanos now), unlimited = False,
             past = (raw * 1000000000 - unix_nanos now \<le> 0)\<rparr>)
   \<and> (2592000 < raw \<and> is_int64 (raw + unixToInternal) \<and> valid_Time now
        \<and> is_int64 (raw * 1000000000 - unix_nanos now) \<longrightarrow>
      expirationParser now raw =
        Inr \<lparr>secs = raw * 1000000000 - unix_nanos now, unlimited = False,
             past = (raw * 1000000000 - unix_nanos now \<le> 0)\<rparr>)
   \<and> (0 < raw \<and> raw \<le> 2592000 \<longrightarrow>
      expirationParser now raw =
        Inr \<lparr>secs = raw * 1000000000, unlimited = False, past = False\<rparr>)"
proof (intro conjI impI)
  assume "raw = 0"
  then show "expirationParser now raw = Inr \<lparr>secs = 0, unlimited = True, past = False\<rparr>"
    by (simp add: expirationParser_def ttl_zero_def)
next
  assume "raw < 0"
  then show "expirationParser now raw = Inl (errorString ''Expiration cannot be negative'')"
    by (simp add: expirationParser_def)
next
  assume "2592000 < raw \<and> is_int64 (raw + unixToInternal) \<and> valid_Time now
        \<and> - (2 ^ 62) \<le> sec now \<and> sec now \<le> 2 ^ 62"
  then show "expirationParser now raw =
      Inr \<lparr>secs = clamp64 (raw * 1000000000 - unix_nanos now), unlimited = False,
           past = (raw * 1000000000 - unix_nanos now \<le> 0)\<rparr>"
    using expirationParser_absolute_clamped by blast
next
  assume "2592000 < raw \<and> is_int64 (raw + unixToInternal) \<and> valid_Time now
        \<and> is_int64 (raw * 1000000000 - unix_nanos now)"
  then show "expirationParser now raw =
      Inr \<lparr>secs = raw * 1000000000 - unix_nanos now, unlimited = False,
           past = (raw * 1000000000 - unix_nanos now \<le> 0)\<rparr>"
    using expirationParser_absolute by blast
next
  assume "0 < raw \<and> raw \<le> 2592000"
  then show "expirationParser now raw =
      Inr \<lparr>secs = raw * 1000000000, unlimited = False, past = False\<rparr>"
    using expirationParser_relative by blast
qed

theorem expirationParser_cases_witness:
  "expirationParser \<lparr>sec = 63835596800, nsec = 5\<rparr> 0
     = Inr \<lparr>secs = 0, unlimited = True, past = False\<rparr>
   \<and> expirationParser \<lparr>sec = 63835596800, nsec = 5\<rparr> (- 1)
     = Inl (errorString ''Expiration cannot be negative'')
   \<and> expirationParser \<lparr>sec = 63835596800, nsec = 5\<rparr> 20000000000
     = Inr \<lparr>secs = 9223372036854775807, unlimited = False, past = False\<rparr>
   \<and> expirationParser \<lparr>sec = 63835596800, nsec = 5\<rparr> 1700000100
     = Inr \<lparr>secs = 99999999995, unlimited = False, past = False\<rparr>
   \<and> expirationParser \<lparr>sec = 63835596800, nsec = 5\<rparr> 1700000000
     = Inr \<lparr>secs = - 5, unlimited = False, past = True\<rparr>
   \<and> expirationParser \<lparr>sec = 63835596800, nsec = 5\<rparr> 100
     = Inr \<lparr>secs = 100000000000, unlimited = False, past = False\<rparr>"
proof -
  let ?now = "\<lparr>sec = 63835596800, nsec = 5\<rparr>"
  have v: "valid_Time ?now"
    by (simp add: valid_Time_def is_int64_def)
  have n: "unix_nanos ?now = 1700000000000000005"
    by (simp add: unix_nanos_def unixToInternal_def)
  have zero: "expirationParser ?now 0 = Inr \<lparr>secs = 0, unlimited = True, past = False\<rparr>"
    using expirationParser_cases [of 0 ?now] by simp
  have negative: "expirationParser ?now (- 1)
      = Inl (errorString ''Expiration cannot be negative'')"
    using expirationParser_cases [of "- 1" ?now] by simp
  have far: "expirationParser ?now 20000000000
      = Inr \<lparr>secs = 9223372036854775807, unlimited = False, past = False\<rparr>"
    using expirationParser_cases [of 20000000000 ?now] v
    by (simp add: n is_int64_def unixToInternal_def clamp64_def minDuration_def
        maxDuration_def)
  have ahead: "expirationParser ?now 1700000100
      = Inr \<lparr>secs = 99999999995, unlimited = False, past = False\<rparr>"
    using expirationParser_cases [of 1700000100 ?now] v
    by (simp add: n is_int64_def unixToInternal_def clamp64_def minDuration_def
        maxDuration_def)
  have behind: "expirationParser ?now 1700000000
      = Inr \<lparr>secs = - 5, unlimited = False, past = True\<rparr>"
    using expirationParser_cases [of 1700000000 ?now] v
    by (simp add: n is_int64_def unixToInternal_def clamp64_def minDuration_def
        maxDuration_def)
  have relative: "expirationParser ?now 100
      = Inr \<lparr>secs = 100000000000, unlimited = False, past = False\<rparr>"
    using expirationParser_cases [of 100 ?now] by simp
  show ?thesis
    by (intro conjI) (rule zero, rule negative, rule far, rule ahead, rule behind,
        rule relative)
qed

text \<open>
  Claim C1 as it is written fails far in the future. With the clock at Unix second
  1700000000, the expiration 20000000000 lies 18300000000 seconds ahead, more than a
  \<open>Duration\<close> can hold, and \<open>Sub\<close> returns the largest duration instead of the
  difference. The largest \<open>int64\<close> expiration has no representable instant:
  \<open>time.Unix\<close> wraps around to the distant past and the result is marked past.
\<close>

theorem expirationParser_far_future_counterexample:
  "is_int64 20000000000 \<and> (2592000 :: int) < 20000000000
   \<and> valid_Time \<lparr>sec = 63835596800, nsec = 0\<rparr>
   \<and> expirationParser \<lparr>sec = 63835596800, nsec = 0\<rparr> 20000000000
       = Inr \<lparr>secs = 9223372036854775807, unlimited = False, past = False\<rparr>
   \<and> 20000000000 * 1000000000 - unix_nanos \<lparr>sec = 63835596800, nsec = 0\<rparr>
       = 18300000000000000000
   \<and> (9223372036854775807 :: int) \<noteq> 18300000000000000000
   \<and> is_int64 9223372036854775807
   \<and> expirationParser \<lparr>sec = 63835596800, nsec = 0\<rparr> 9223372036854775807
       = Inr \<lparr>secs = - 9223372036854775808, unlimited = False, past = True\<rparr>
   \<and> \<not> 9223372036854775807 * 1000000000 - unix_nanos \<lparr>sec = 63835596800, nsec = 0\<rparr> \<le> 0"
proof -
  have u: "wrap64 (20000000000 + unixToInternal) = 82135596800"
    by (simp add: wrap64_def unixToInternal_def)
  have far: "expirationParser \<lparr>sec = 63835596800, nsec = 0\<rparr> 20000000000
       = Inr \<lparr>secs = 9223372036854775807, unlimited = False, past = False\<rparr>"
    by (simp add: expirationParser_def time_Unix_0 u time_Sub_saturates_example
        maxDuration_def ttl_zero_def)
  have w: "wrap64 (9223372036854775807 + unixToInternal) = - 9223371974719179009"
    by (simp add: wrap64_def unixToInternal_def)
  have wrapped: "expirationParser \<lparr>sec = 63835596800, nsec = 0\<rparr> 9223372036854775807
       = Inr \<lparr>secs = - 9223372036854775808, unlimited = False, past = True\<rparr>"
    by (simp add: expirationParser_def time_Unix_0 w time_Sub_wraps_example
        minDuration_def ttl_zero_def)
  show ?thesis
    by (simp add: far wrapped) (simp add: is_int64_def valid_Time_def unix_nanos_def unixToInternal_def)
qed

text \<open>
  Claim C10. An expiration at or below the 30-day threshold (zero, negative or
  relative seconds) is translated without the clock: any two clock readings give the
  same result.
\<close>

theorem expirationParser_clock_independent:
  "raw \<le> 2592000 \<Longrightarrow> expirationParser now1 raw = expirationParser now2 raw"
  by (simp add: expirationParser_def)

theorem expirationParser_clock_independent_witness:
  "(100 :: int) \<le> 2592000
   \<and> expirationParser \<lparr>sec = 63835596800, nsec = 5\<rparr> 100
     = expirationParser \<lparr>sec = 1, nsec = 0\<rparr> 100"
  using expirationParser_clock_independent [of 100 "\<lparr>sec = 63835596800, nsec = 5\<rparr>" "\<lparr>sec = 1, nsec = 0\<rparr>"]
  by simp

section \<open>Properties of the handlers\<close>

lemma sent_eq:
  "sent c f w = (fst (f (store w)), w\<lparr>store := snd (f (store w)), calls := calls w @ [c]\<rparr>)"
  by (simp add: sent_def split_beta)

lemma expirationParser_past:
  "expirationParser now t = Inr exp \<Longrightarrow> past exp \<Longrightarrow> secs exp \<le> 0"
  by (auto simp: expirationParser_def ttl_zero_def Let_def split: if_splits)

lemma expirationParser_unlimited:
  "expirationParser now t = Inr exp \<Longrightarrow> unlimited exp \<Longrightarrow> secs exp = 0 \<and> \<not> past exp"
  by (auto simp: expirationParser_def ttl_zero_def Let_def split: if_splits)

text \<open>
  Claim C2, as the code has it. For every SET request: a translation error is
  returned as the handler's error with the response and the world untouched (no
  backend command is sent); when the translated expiration is past, the duration is
  non-positive, the only command sent is \<open>Expire\<close> for the key with that duration, the
  value is not stored and the response is \<open>STORED\<close>; otherwise the only command sent
  is \<open>Set\<close> with the key, the value and the translated duration (zero, the client's
  "no expiry", when unlimited), and the response is \<open>STORED\<close> when that command
  succeeds, while its error is returned and the response left alone when it fails.
\<close>

theorem SetHandler_cases:
  "(\<forall>e. expirationParser (clock w) (Exptime req) = Inl e \<longrightarrow>
      SetHandler b req res w = (Some e, res, w))
   \<and> (\<forall>exp. expirationParser (clock w) (Exptime req) = Inr exp \<and> past exp \<longrightarrow>
      secs exp \<le> 0
      \<and> SetHandler b req res w =
          (None, res\<lparr>Response := ''STORED''\<rparr>,
           w\<lparr>store := snd (redis_Expire b (Key req) (secs exp) (store w)),
             calls := calls w @ [Call_Expire (Key req) (secs exp)]\<rparr>))
   \<and> (\<forall>exp. expirationParser (clock w) (Exptime req) = Inr exp \<and> \<not> past exp \<longrightarrow>
      (unlimited exp \<longrightarrow> secs exp = 0)
      \<and> SetHandler b req res w =
          (Err (fst (redis_Set b (Key req) (Value req) (secs exp) (store w))),
           (if Err (fst (redis_Set b (Key req) (Value req) (secs exp) (store w))) = None
            then res\<lparr>Response := ''STORED''\<rparr> else res),
           w\<lparr>store := snd (redis_Set b (Key req) (Value req) (secs exp) (store w)),
             calls := calls w @ [Call_Set (Key req) (Value req) (secs exp)]\<rparr>))"
proof (intro conjI allI impI)
  fix e assume "expirationParser (clock w) (Exptime req) = Inl e"
  then show "SetHandler b req res w = (Some e, res, w)"
    by (simp add: SetHandler_def)
next
  fix exp assume h: "expirationParser (clock w) (Exptime req) = Inr exp \<and> past exp"
  then show "secs exp \<le> 0"
    using expirationParser_past by blast
  from h show "SetHandler b req res w =
          (None, res\<lparr>Response := ''STORED''\<rparr>,
           w\<lparr>store := snd (redis_Expire b (Key req) (secs exp) (store w)),
             calls := calls w @ [Call_Expire (Key req) (secs exp)]\<rparr>)"
    by (simp add: SetHandler_def backend_Expire_def sent_eq)
next
  fix exp assume h: "expirationParser (clock w) (Exptime req) = Inr exp \<and> \<not> past exp"
  then show "secs exp = 0" if "unlimited exp"
    using that expirationParser_unlimited by blast
  from h show "SetHandler b req res w =
          (Err (fst (redis_Set b (Key req) (Value req) (secs exp) (store w))),
           (if Err (fst (redis_Set b (Key req) (Value req) (secs exp) (store w))) = None
            then res\<lparr>Response := ''STORED''\<rparr> else res),
           w\<lparr>store := snd (redis_Set b (Key req) (Value req) (secs exp) (store w)),
             calls := calls w @ [Call_Set (Key req) (Value req) (secs exp)]\<rparr>)"
    by (simp add: SetHandler_def backend_Set_def sent_eq)
qed


lemma parser_noon_past:
  "expirationParser noon 1600000000 =
     Inr \<lparr>secs = - 100000000000000000, unlimited = False, past = True\<rparr>"
proof -
  have "valid_Time noon"
    by (simp add: valid_Time_def noon_def is_int64_def)
  moreover have "unix_nanos noon = 1700000000000000000"
    by (simp add: unix_nanos_def noon_def unixToInternal_def)
  ultimately show ?thesis
    using expirationParser_absolute [of 1600000000 noon]
    by (simp add: is_int64_def unixToInternal_def)
qed

lemma parser_zero:
  "expirationParser now 0 = Inr \<lparr>secs = 0, unlimited = True, past = False\<rparr>"
  by (simp add: expirationParser_def ttl_zero_def)

lemma parser_negative:
  "expirationParser now (- 1) = Inl (errorString ''Expiration cannot be negative'')"
  by (simp add: expirationParser_def)

theorem SetHandler_cases_witness:
  "SetHandler mem_Client (request\<lparr>Key := ''k'', Value := ''v'', Exptime := - 1\<rparr>)
      McResponse_zero (world0 Map.empty)
     = (Some (errorString ''Expiration cannot be negative''), McResponse_zero, world0 Map.empty)
   \<and> SetHandler mem_Client (request\<lparr>Key := ''k'', Value := ''v'', Exptime := 1600000000\<rparr>)
      McResponse_zero (world0 [''k'' \<mapsto> ''old''])
     = (None, \<lparr>Response = ''STORED'', Values = []\<rparr>,
        \<lparr>store = Map.empty, calls = [Call_Expire ''k'' (- 100000000000000000)], clock = noon\<rparr>)
   \<and> SetHandler mem_Client (request\<lparr>Key := ''k'', Value := ''v'', Exptime := 0\<rparr>)
      McResponse_zero (world0 Map.empty)
     = (None, \<lparr>Response = ''STORED'', Values = []\<rparr>,
        \<lparr>store = [''k'' \<mapsto> ''v''], calls = [Call_Set ''k'' ''v'' 0], clock = noon\<rparr>)"
proof -
  have rejected: "SetHandler mem_Client (request\<lparr>Key := ''k'', Value := ''v'', Exptime := - 1\<rparr>)
        McResponse_zero (world0 Map.empty)
       = (Some (errorString ''Expiration cannot be negative''), McResponse_zero, world0 Map.empty)"
    using SetHandler_cases [where b = mem_Client and res = McResponse_zero and w = "world0 Map.empty"
        and req = "request\<lparr>Key := ''k'', Value := ''v'', Exptime := - 1\<rparr>", THEN conjunct1, rule_format,
        of "errorString ''Expiration cannot be negative''"]
    by (simp add: request_def world0_def parser_negative)
  have expired: "SetHandler mem_Client (request\<lparr>Key := ''k'', Value := ''v'', Exptime := 1600000000\<rparr>)
        McResponse_zero (world0 [''k'' \<mapsto> ''old''])
       = (None, \<lparr>Response = ''STORED'', Values = []\<rparr>,
          \<lparr>store = Map.empty, calls = [Call_Expire ''k'' (- 100000000000000000)], clock = noon\<rparr>)"
    using SetHandler_cases [where b = mem_Client and res = McResponse_zero
        and w = "world0 [''k'' \<mapsto> ''old'']"
        and req = "request\<lparr>Key := ''k'', Value := ''v'', Exptime := 1600000000\<rparr>",
         THEN conjunct2, THEN conjunct1, rule_format,
        of "\<lparr>secs = - 100000000000000000, unlimited = False, past = True\<rparr>"]
    by (simp add: request_def world0_def parser_noon_past mem_Client_def McResponse_zero_def)
  have stored: "SetHandler mem_Client (request\<lparr>Key := ''k'', Value := ''v'', Exptime := 0\<rparr>)
        McResponse_zero (world0 Map.empty)
       = (None, \<lparr>Response = ''STORED'', Values = []\<rparr>,
          \<lparr>store = [''k'' \<mapsto> ''v''], calls = [Call_Set ''k'' ''v'' 0], clock = noon\<rparr>)"
    using SetHandler_cases [where b = mem_Client and res = McResponse_zero and w = "world0 Map.empty"
        and req = "request\<lparr>Key := ''k'', Value := ''v'', Exptime := 0\<rparr>",
         THEN conjunct2, THEN conjunct2, rule_format,
        of "\<lparr>secs = 0, unlimited = True, past = False\<rparr>"]
    by (simp add: request_def world0_def parser_zero mem_Client_def McResponse_zero_def Err_def)
  show ?thesis
    by (intro conjI) (rule rejected, rule expired, rule stored)
qed

text \<open>
  Claim C2 as it is written promises \<open>STORED\<close> for every SET whose expiration is not
  past. When the \<open>Set\<close> command fails, here against a server that cannot be reached,
  the handler returns the client's error and reports nothing.
\<close>

theorem SetHandler_failed_store_counterexample:
  "expirationParser (clock (world0 ())) (Exptime (request\<lparr>Key := ''k'', Value := ''v''\<rparr>))
     = Inr \<lparr>secs = 0, unlimited = True, past = False\<rparr>
   \<and> SetHandler down_Client (request\<lparr>Key := ''k'', Value := ''v''\<rparr>) McResponse_zero (world0 ())
     = (Some refused, \<lparr>Response = [], Values = []\<rparr>,
        \<lparr>store = (), calls = [Call_Set ''k'' ''v'' 0], clock = noon\<rparr>)
   \<and> [] \<noteq> ''STORED''"
  by (simp add: SetHandler_def backend_Set_def sent_eq down_Client_def parser_zero
      request_def world0_def McResponse_zero_def Err_def)

text \<open>
  Claim C9, as the code has it. For every ADD request: a translation error is
  returned as the handler's error and no backend command is sent; when the
  expiration translates, past or not, the only command sent is \<open>SetNX\<close> with the key,
  the value and the translated duration, with no special case for a past
  expiration; when that command succeeds the response is \<open>STORED\<close> if the key was
  newly set and \<open>NOT_STORED\<close> if it was not, and when it fails its error is returned
  and the response left alone.
\<close>

theorem AddHandler_cases:
  "(\<forall>e. expirationParser (clock w) (Exptime req) = Inl e \<longrightarrow>
      AddHandler b req res w = (Some e, res, w))
   \<and> (\<forall>exp. expirationParser (clock w) (Exptime req) = Inr exp \<longrightarrow>
      AddHandler b req res w =
        (Err (fst (redis_SetNX b (Key req) (Value req) (secs exp) (store w))),
         (if Err (fst (redis_SetNX b (Key req) (Value req) (secs exp) (store w))) \<noteq> None
          then res
          else if Val (fst (redis_SetNX b (Key req) (Value req) (secs exp) (store w)))
          then res\<lparr>Response := ''STORED''\<rparr>
          else res\<lparr>Response := ''NOT_STORED''\<rparr>),
         w\<lparr>store := snd (redis_SetNX b (Key req) (Value req) (secs exp) (store w)),
           calls := calls w @ [Call_SetNX (Key req) (Value req) (secs exp)]\<rparr>))"
  by (simp add: AddHandler_def backend_SetNX_def sent_eq)

theorem AddHandler_cases_witness:
  "AddHandler mem_Client (request\<lparr>Key := ''k'', Value := ''v'', Exptime := - 1\<rparr>)
      McResponse_zero (world0 Map.empty)
     = (Some (errorString ''Expiration cannot be negative''), McResponse_zero, world0 Map.empty)
   \<and> AddHandler mem_Client (request\<lparr>Key := ''k'', Value := ''v'', Exptime := 1600000000\<rparr>)
      McResponse_zero (world0 Map.empty)
     = (None, \<lparr>Response = ''STORED'', Values = []\<rparr>,
        \<lparr>store = [''k'' \<mapsto> ''v''],
         calls = [Call_SetNX ''k'' ''v'' (- 100000000000000000)], clock = noon\<rparr>)
   \<and> AddHandler mem_Client (request\<lparr>Key := ''k'', Value := ''v'', Exptime := 0\<rparr>)
      McResponse_zero (world0 [''k'' \<mapsto> ''old''])
     = (None, \<lparr>Response = ''NOT_STORED'', Values = []\<rparr>,
        \<lparr>store = [''k'' \<mapsto> ''old''], calls = [Call_SetNX ''k'' ''v'' 0], clock = noon\<rparr>)"
proof -
  have rejected: "AddHandler mem_Client (request\<lparr>Key := ''k'', Value := ''v'', Exptime := - 1\<rparr>)
      McResponse_zero (world0 Map.empty)
     = (Some (errorString ''Expiration cannot be negative''), McResponse_zero, world0 Map.empty)"
    using AddHandler_cases [where b = mem_Client and res = McResponse_zero
      and w = "world0 Map.empty"
      and req = "request\<lparr>Key := ''k'', Value := ''v'', Exptime := - 1\<rparr>",
      THEN conjunct1, rule_format, of "errorString ''Expiration cannot be negative''"]
    by (simp add: request_def world0_def parser_negative)
  have fresh: "AddHandler mem_Client (request\<lparr>Key := ''k'', Value := ''v'', Exptime := 1600000000\<rparr>)
      McResponse_zero (world0 Map.empty)
     = (None, \<lparr>Response = ''STORED'', Values = []\<rparr>,
        \<lparr>store = [''k'' \<mapsto> ''v''],
         calls = [Call_SetNX ''k'' ''v'' (- 100000000000000000)], clock = noon\<rparr>)"
    using AddHandler_cases [where b = mem_Client and res = McResponse_zero
      and w = "world0 Map.empty"
      and req = "request\<lparr>Key := ''k'', Value := ''v'', Exptime := 1600000000\<rparr>",
      THEN conjunct2, rule_format,
      of "\<lparr>secs = - 100000000000000000, unlimited = False, past = True\<rparr>"]
    by (simp add: request_def world0_def parser_noon_past mem_Client_def McResponse_zero_def
        Err_def Val_def)
  have taken: "AddHandler mem_Client (request\<lparr>Key := ''k'', Value := ''v'', Exptime := 0\<rparr>)
      McResponse_zero (world0 [''k'' \<mapsto> ''old''])
     = (None, \<lparr>Response = ''NOT_STORED'', Values = []\<rparr>,
        \<lparr>store = [''k'' \<mapsto> ''old''], calls = [Call_SetNX ''k'' ''v'' 0], clock = noon\<rparr>)"
    using AddHandler_cases [where b = mem_Client and res = McResponse_zero
      and w = "world0 [''k'' \<mapsto> ''old'']"
      and req = "request\<lparr>Key := ''k'', Value := ''v'', Exptime := 0\<rparr>",
      THEN conjunct2, rule_format,
      of "\<lparr>secs = 0, unlimited = True, past = False\<rparr>"]
    by (simp add: request_def world0_def parser_zero mem_Client_def McResponse_zero_def
        Err_def Val_def)
  show ?thesis
    by (intro conjI) (rule rejected, rule fresh, rule taken)
qed

text \<open>
  Claim C9 as it is written has every ADD reach the set-if-absent command and answer
  \<open>STORED\<close> or \<open>NOT_STORED\<close>. A negative expiration does not translate and no command
  is sent; and when \<open>SetNX\<close> fails, here against a server that cannot be reached, the
  handler returns the client's error and reports neither.
\<close>

theorem AddHandler_failed_counterexample:
  "AddHandler down_Client (request\<lparr>Key := ''k'', Value := ''v'', Exptime := - 1\<rparr>)
      McResponse_zero (world0 ())
     = (Some (errorString ''Expiration cannot be negative''), \<lparr>Response = [], Values = []\<rparr>,
        \<lparr>store = (), calls = [], clock = noon\<rparr>)
   \<and> AddHandler down_Client (request\<lparr>Key := ''k'', Value := ''v''\<rparr>) McResponse_zero (world0 ())
     = (Some refused, \<lparr>Response = [], Values = []\<rparr>,
        \<lparr>store = (), calls = [Call_SetNX ''k'' ''v'' 0], clock = noon\<rparr>)
   \<and> [] \<noteq> ''STORED'' \<and> [] \<noteq> ''NOT_STORED''"
  by (simp add: AddHandler_def backend_SetNX_def sent_eq down_Client_def parser_zero
      parser_negative request_def world0_def McResponse_zero_def Err_def)

text \<open>
  Claim C5. For every INCR or DECR request whose key the existence check reports
  missing: the response is \<open>NOT_FOUND\<close>, no error is returned, and the existence check
  is the only command sent, so that no increment or decrement reaches the backend
  and the key is not created; the store is left as that check leaves it, which is
  unchanged whenever the check is the query it is in Redis.
\<close>

theorem Incr_Decr_missing_key:
  assumes "\<not> Val (fst (redis_Exists b (Key req) (store w)))"
  shows "IncrHandler b req res w =
           (None, res\<lparr>Response := ''NOT_FOUND''\<rparr>,
            w\<lparr>store := snd (redis_Exists b (Key req) (store w)),
              calls := calls w @ [Call_Exists (Key req)]\<rparr>)
       \<and> DecrHandler b req res w =
           (None, res\<lparr>Response := ''NOT_FOUND''\<rparr>,
            w\<lparr>store := snd (redis_Exists b (Key req) (store w)),
              calls := calls w @ [Call_Exists (Key req)]\<rparr>)
       \<and> (snd (redis_Exists b (Key req) (store w)) = store w \<longrightarrow>
            store (snd (snd (IncrHandler b req res w))) = store w
            \<and> store (snd (snd (DecrHandler b req res w))) = store w)"
  using assms by (simp add: IncrHandler_def DecrHandler_def backend_Exists_def sent_eq)

theorem Incr_Decr_missing_key_witness:
  "IncrHandler mem_Client (request\<lparr>Key := ''k'', Increment := 5\<rparr>) McResponse_zero
      (world0 [''other'' \<mapsto> ''1''])
     = (None, \<lparr>Response = ''NOT_FOUND'', Values = []\<rparr>,
        \<lparr>store = [''other'' \<mapsto> ''1''], calls = [Call_Exists ''k''], clock = noon\<rparr>)
   \<and> DecrHandler mem_Client (request\<lparr>Key := ''k'', Increment := 5\<rparr>) McResponse_zero
      (world0 [''other'' \<mapsto> ''1''])
     = (None, \<lparr>Response = ''NOT_FOUND'', Values = []\<rparr>,
        \<lparr>store = [''other'' \<mapsto> ''1''], calls = [Call_Exists ''k''], clock = noon\<rparr>)"
proof -
  have absent: "\<not> Val (fst (redis_Exists mem_Client
      (Key (request\<lparr>Key := ''k'', Increment := 5\<rparr>)) (store (world0 [''other'' \<mapsto> ''1'']))))"
    by (simp add: request_def world0_def mem_Client_def Val_def)
  show ?thesis
    using Incr_Decr_missing_key [OF absent, of McResponse_zero]
    by (simp add: request_def world0_def McResponse_zero_def mem_Client_def)
qed

text \<open>
  Claim C3 asks that every backend failure reach the serve loop as the handler's
  error. Two calls are never checked: when the existence check of INCR or DECR fails
  (its value then being false) the handler returns no error and answers \<open>NOT_FOUND\<close>,
  and when the \<open>Expire\<close> of SET's past path fails the handler returns no error and
  answers \<open>STORED\<close>.
\<close>

theorem unchecked_backend_failures:
  "(Err (fst (redis_Exists b (Key req) (store w))) = Some e
      \<and> \<not> Val (fst (redis_Exists b (Key req) (store w))) \<longrightarrow>
      fst (IncrHandler b req res w) = None
      \<and> fst (snd (IncrHandler b req res w)) = res\<lparr>Response := ''NOT_FOUND''\<rparr>
      \<and> fst (DecrHandler b req res w) = None
      \<and> fst (snd (DecrHandler b req res w)) = res\<lparr>Response := ''NOT_FOUND''\<rparr>)
   \<and> (\<forall>exp. expirationParser (clock w) (Exptime req) = Inr exp \<and> past exp
      \<and> Err (fst (redis_Expire b (Key req) (secs exp) (store w))) = Some e \<longrightarrow>
      fst (SetHandler b req res w) = None
      \<and> fst (snd (SetHandler b req res w)) = res\<lparr>Response := ''STORED''\<rparr>)"
  by (simp add: IncrHandler_def DecrHandler_def SetHandler_def backend_Exists_def
      backend_Expire_def sent_eq)

theorem unchecked_backend_failures_witness:
  "(fst (IncrHandler down_Client (request\<lparr>Key := ''k'', Increment := 5\<rparr>) McResponse_zero (world0 ()))
      = None
    \<and> fst (snd (IncrHandler down_Client (request\<lparr>Key := ''k'', Increment := 5\<rparr>) McResponse_zero
        (world0 ()))) = \<lparr>Response = ''NOT_FOUND'', Values = []\<rparr>
    \<and> fst (DecrHandler down_Client (request\<lparr>Key := ''k'', Increment := 5\<rparr>) McResponse_zero (world0 ()))
      = None
    \<and> fst (snd (DecrHandler down_Client (request\<lparr>Key := ''k'', Increment := 5\<rparr>) McResponse_zero
        (world0 ()))) = \<lparr>Response = ''NOT_FOUND'', Values = []\<rparr>)
   \<and> (fst (SetHandler down_Client (request\<lparr>Key := ''k'', Value := ''v'', Exptime := 1600000000\<rparr>)
        McResponse_zero (world0 ())) = None
    \<and> fst (snd (SetHandler down_Client (request\<lparr>Key := ''k'', Value := ''v'', Exptime := 1600000000\<rparr>)
        McResponse_zero (world0 ()))) = \<lparr>Response = ''STORED'', Values = []\<rparr>)"
proof -
  have counters: "fst (IncrHandler down_Client (request\<lparr>Key := ''k'', Increment := 5\<rparr>) McResponse_zero (world0 ()))
      = None
    \<and> fst (snd (IncrHandler down_Client (request\<lparr>Key := ''k'', Increment := 5\<rparr>) McResponse_zero
        (world0 ()))) = \<lparr>Response = ''NOT_FOUND'', Values = []\<rparr>
    \<and> fst (DecrHandler down_Client (request\<lparr>Key := ''k'', Increment := 5\<rparr>) McResponse_zero (world0 ()))
      = None
    \<and> fst (snd (DecrHandler down_Client (request\<lparr>Key := ''k'', Increment := 5\<rparr>) McResponse_zero
        (world0 ()))) = \<lparr>Response = ''NOT_FOUND'', Values = []\<rparr>"
    using unchecked_backend_failures [where b = down_Client and res = McResponse_zero
      and w = "world0 ()" and e = refused
      and req = "request\<lparr>Key := ''k'', Increment := 5\<rparr>", THEN conjunct1, rule_format]
    by (simp add: down_Client_def Err_def Val_def McResponse_zero_def)
  have expiry: "fst (SetHandler down_Client (request\<lparr>Key := ''k'', Value := ''v'', Exptime := 1600000000\<rparr>)
        McResponse_zero (world0 ())) = None
    \<and> fst (snd (SetHandler down_Client (request\<lparr>Key := ''k'', Value := ''v'', Exptime := 1600000000\<rparr>)
        McResponse_zero (world0 ()))) = \<lparr>Response = ''STORED'', Values = []\<rparr>"
    using unchecked_backend_failures [where b = down_Client and res = McResponse_zero
      and w = "world0 ()" and e = refused
      and req = "request\<lparr>Key := ''k'', Value := ''v'', Exptime := 1600000000\<rparr>",
      THEN conjunct2, rule_format,
      of "\<lparr>secs = - 100000000000000000, unlimited = False, past = True\<rparr>"]
    by (simp add: down_Client_def Err_def McResponse_zero_def request_def world0_def
        parser_noon_past)
  show ?thesis
    by (rule conjI [OF counters expiry])
qed

lemma fetch_all_calls:
  "calls (snd (fetch_all b keys w)) = calls w @ map Call_Get keys"
proof (induction keys arbitrary: w)
  case Nil
  show ?case by simp
next
  case (Cons key keys)
  obtain r w1 where g: "backend_Get b key w = (r, w1)"
    by (cases "backend_Get b key w")
  then have c: "calls w1 = calls w @ [Call_Get key]"
    by (auto simp: backend_Get_def sent_eq)
  show ?case
    using Cons.IH [of w1] by (simp add: g c split_beta)
qed

lemma value_entries_Cons:
  "value_entries ((key, r) # rs) =
     (if Err r = None then \<lparr>VKey = key, VFlags = ''0'', VData = Val r\<rparr> # value_entries rs
      else value_entries rs)"
  by (simp add: value_entries_def)

lemma GetHandler_keys_append:
  assumes "\<forall>(key, r) \<in> set (fst (fetch_all b ks1 w)). \<not> failure r"
  shows "GetHandler_keys b (ks1 @ ks2) res w =
           GetHandler_keys b ks2
             (res\<lparr>Values := Values res @ value_entries (fst (fetch_all b ks1 w))\<rparr>)
             (snd (fetch_all b ks1 w))"
  using assms
proof (induction ks1 arbitrary: res w)
  case Nil
  show ?case by (simp add: value_entries_def)
next
  case (Cons key ks1)
  obtain r w1 where g: "backend_Get b key w = (r, w1)"
    by (cases "backend_Get b key w")
  obtain rs w2 where f: "fetch_all b ks1 w1 = (rs, w2)"
    by (cases "fetch_all b ks1 w1")
  from Cons.prems have ok: "\<not> failure r" and rest: "\<forall>(key, r) \<in> set (fst (fetch_all b ks1 w1)). \<not> failure r"
    by (simp_all add: g f)
  show ?case
  proof (cases "Err r")
    case None
    then show ?thesis
      using Cons.IH [OF rest] by (simp add: g f value_entries_Cons)
  next
    case (Some e)
    with ok have "e = redis_Nil" by (simp add: failure_def)
    with Some show ?thesis
      using Cons.IH [OF rest] by (simp add: g f value_entries_Cons)
  qed
qed

lemma GetHandler_keys_failure:
  assumes "failure (fst (backend_Get b key w))"
  shows "GetHandler_keys b (key # ks) res w =
    (Err (fst (backend_Get b key w)), res, snd (backend_Get b key w))"
proof -
  obtain r w1 where g: "backend_Get b key w = (r, w1)"
    by (cases "backend_Get b key w")
  with assms have "Err r \<noteq> None" "Err r \<noteq> Some redis_Nil"
    by (auto simp: failure_def split: option.splits)
  then show ?thesis by (simp add: g)
qed

text \<open>
  Claim C4. For every GET request the keys are fetched in request order. When no
  fetch fails, the response gains one value entry (the key, the flags \<open>0\<close>, the bytes)
  for each key found, in order, and none for a missing key, the status line is set to
  \<open>END\<close>, no error is returned, and every key has been fetched. When the fetch of a
  key fails after keys that did not, the error is returned, the entries of the
  earlier keys stay in the response, the status line is not set, and no later key is
  fetched.
\<close>

theorem GetHandler_cases:
  "((\<forall>(key, r) \<in> set (fst (fetch_all b (Keys req) w)). \<not> failure r) \<longrightarrow>
      GetHandler b req res w =
        (None,
         res\<lparr>Values := Values res @ value_entries (fst (fetch_all b (Keys req) w)),
             Response := ''END''\<rparr>,
         snd (fetch_all b (Keys req) w))
      \<and> calls (snd (fetch_all b (Keys req) w)) = calls w @ map Call_Get (Keys req))
   \<and> (\<forall>ks1 key ks2.
        Keys req = ks1 @ key # ks2
        \<and> (\<forall>(k, r) \<in> set (fst (fetch_all b ks1 w)). \<not> failure r)
        \<and> failure (fst (backend_Get b key (snd (fetch_all b ks1 w)))) \<longrightarrow>
      GetHandler b req res w =
        (Err (fst (backend_Get b key (snd (fetch_all b ks1 w)))),
         res\<lparr>Values := Values res @ value_entries (fst (fetch_all b ks1 w))\<rparr>,
         snd (backend_Get b key (snd (fetch_all b ks1 w))))
      \<and> calls (snd (backend_Get b key (snd (fetch_all b ks1 w))))
          = calls w @ map Call_Get (ks1 @ [key]))"
proof (intro conjI allI impI)
  assume ok: "\<forall>(key, r) \<in> set (fst (fetch_all b (Keys req) w)). \<not> failure r"
  have "GetHandler_keys b (Keys req @ []) res w =
      (None, res\<lparr>Values := Values res @ value_entries (fst (fetch_all b (Keys req) w))\<rparr>,
       snd (fetch_all b (Keys req) w))"
    by (simp only: GetHandler_keys_append [OF ok] GetHandler_keys.simps)
  then show "GetHandler b req res w =
        (None,
         res\<lparr>Values := Values res @ value_entries (fst (fetch_all b (Keys req) w)),
             Response := ''END''\<rparr>,
         snd (fetch_all b (Keys req) w))"
    by (simp add: GetHandler_def)
  show "calls (snd (fetch_all b (Keys req) w)) = calls w @ map Call_Get (Keys req)"
    by (rule fetch_all_calls)
next
  fix ks1 key ks2
  assume h: "Keys req = ks1 @ key # ks2
        \<and> (\<forall>(k, r) \<in> set (fst (fetch_all b ks1 w)). \<not> failure r)
        \<and> failure (fst (backend_Get b key (snd (fetch_all b ks1 w))))"
  then have ok: "\<forall>(k, r) \<in> set (fst (fetch_all b ks1 w)). \<not> failure r"
    and bad: "failure (fst (backend_Get b key (snd (fetch_all b ks1 w))))"
    by blast+
  from bad obtain e where e: "Err (fst (backend_Get b key (snd (fetch_all b ks1 w)))) = Some e"
    by (auto simp: failure_def split: option.splits)
  have "GetHandler_keys b (Keys req) res w =
      (Err (fst (backend_Get b key (snd (fetch_all b ks1 w)))),
       res\<lparr>Values := Values res @ value_entries (fst (fetch_all b ks1 w))\<rparr>,
       snd (backend_Get b key (snd (fetch_all b ks1 w))))"
    using h by (simp only: GetHandler_keys_append [OF ok] GetHandler_keys_failure [OF bad])
  then show "GetHandler b req res w =
        (Err (fst (backend_Get b key (snd (fetch_all b ks1 w)))),
         res\<lparr>Values := Values res @ value_entries (fst (fetch_all b ks1 w))\<rparr>,
         snd (backend_Get b key (snd (fetch_all b ks1 w))))"
    by (simp add: GetHandler_def e)
  show "calls (snd (backend_Get b key (snd (fetch_all b ks1 w))))
          = calls w @ map Call_Get (ks1 @ [key])"
    by (simp add: backend_Get_def sent_eq fetch_all_calls)
qed


theorem GetHandler_cases_witness:
  "GetHandler mem_Client (request\<lparr>Keys := [''a'', ''b'', ''c'']\<rparr>) McResponse_zero
      (world0 [''a'' \<mapsto> ''1'', ''c'' \<mapsto> ''3''])
     = (None,
        \<lparr>Response = ''END'',
         Values = [\<lparr>VKey = ''a'', VFlags = ''0'', VData = ''1''\<rparr>,
                   \<lparr>VKey = ''c'', VFlags = ''0'', VData = ''3''\<rparr>]\<rparr>,
        \<lparr>store = [''a'' \<mapsto> ''1'', ''c'' \<mapsto> ''3''],
         calls = [Call_Get ''a'', Call_Get ''b'', Call_Get ''c''], clock = noon\<rparr>)
   \<and> GetHandler flaky_Client (request\<lparr>Keys := [''a'', ''bad'', ''c'']\<rparr>) McResponse_zero
      (world0 [''a'' \<mapsto> ''1'', ''c'' \<mapsto> ''3''])
     = (Some refused,
        \<lparr>Response = [], Values = [\<lparr>VKey = ''a'', VFlags = ''0'', VData = ''1''\<rparr>]\<rparr>,
        \<lparr>store = [''a'' \<mapsto> ''1'', ''c'' \<mapsto> ''3''],
         calls = [Call_Get ''a'', Call_Get ''bad''], clock = noon\<rparr>)"
proof -
  let ?s = "[''a'' \<mapsto> ''1'', ''c'' \<mapsto> ''3'']"
  have all: "fetch_all mem_Client [''a'', ''b'', ''c''] (world0 ?s) =
      ([(''a'', (''1'', None)), (''b'', ([], Some redis_Nil)), (''c'', (''3'', None))],
       \<lparr>store = ?s, calls = [Call_Get ''a'', Call_Get ''b'', Call_Get ''c''], clock = noon\<rparr>)"
    by (simp add: backend_Get_def sent_eq mem_Client_def world0_def)
  have found: "GetHandler mem_Client (request\<lparr>Keys := [''a'', ''b'', ''c'']\<rparr>) McResponse_zero
      (world0 ?s)
     = (None,
        \<lparr>Response = ''END'',
         Values = [\<lparr>VKey = ''a'', VFlags = ''0'', VData = ''1''\<rparr>,
                   \<lparr>VKey = ''c'', VFlags = ''0'', VData = ''3''\<rparr>]\<rparr>,
        \<lparr>store = ?s, calls = [Call_Get ''a'', Call_Get ''b'', Call_Get ''c''], clock = noon\<rparr>)"
    using GetHandler_cases [where b = mem_Client and res = McResponse_zero
      and w = "world0 ?s" and req = "request\<lparr>Keys := [''a'', ''b'', ''c'']\<rparr>",
      THEN conjunct1]
    by (simp add: request_def all failure_def Err_def Val_def value_entries_def
        McResponse_zero_def del: fetch_all.simps)
  have one: "fetch_all flaky_Client [''a''] (world0 ?s) =
      ([(''a'', (''1'', None))], \<lparr>store = ?s, calls = [Call_Get ''a''], clock = noon\<rparr>)"
    by (simp add: backend_Get_def sent_eq flaky_Client_def mem_Client_def world0_def)
  have bad: "backend_Get flaky_Client ''bad''
        \<lparr>store = ?s, calls = [Call_Get ''a''], clock = noon\<rparr>
      = (([], Some refused), \<lparr>store = ?s, calls = [Call_Get ''a'', Call_Get ''bad''], clock = noon\<rparr>)"
    by (simp add: backend_Get_def sent_eq flaky_Client_def)
  have failed: "GetHandler flaky_Client (request\<lparr>Keys := [''a'', ''bad'', ''c'']\<rparr>) McResponse_zero
      (world0 ?s)
     = (Some refused,
        \<lparr>Response = [], Values = [\<lparr>VKey = ''a'', VFlags = ''0'', VData = ''1''\<rparr>]\<rparr>,
        \<lparr>store = ?s, calls = [Call_Get ''a'', Call_Get ''bad''], clock = noon\<rparr>)"
    using GetHandler_cases [where b = flaky_Client and res = McResponse_zero
      and w = "world0 ?s" and req = "request\<lparr>Keys := [''a'', ''bad'', ''c'']\<rparr>",
      THEN conjunct2, rule_format, of "[''a'']" "''bad''" "[''c'']", THEN conjunct1]
    by (simp add: request_def one bad failure_def Err_def Val_def value_entries_def
        McResponse_zero_def refused_def del: fetch_all.simps)
  show ?thesis
    by (rule conjI [OF found failed])
qed

text \<open>
  The other backend calls are checked: a failure of \<open>Del\<close>, \<open>FlushAll\<close>, \<open>IncrBy\<close> or
  \<open>DecrBy\<close> is the handler's error, as it is for \<open>Set\<close>, \<open>SetNX\<close> and \<open>Get\<close> above.
\<close>

lemma checked_backend_failures:
  "Err (fst (redis_Del b (Key req) (store w))) = Some e \<Longrightarrow>
     fst (DeleteHandler b req res w) = Some e"
  "Err (fst (redis_FlushAll b (store w))) = Some e \<Longrightarrow>
     fst (FlushAllHandler b req res w) = Some e"
  "Val (fst (redis_Exists b (Key req) (store w))) \<Longrightarrow>
     Err (fst (redis_IncrBy b (Key req) (Increment req)
       (snd (redis_Exists b (Key req) (store w))))) = Some e \<Longrightarrow>
     fst (IncrHandler b req res w) = Some e"
  "Val (fst (redis_Exists b (Key req) (store w))) \<Longrightarrow>
     Err (fst (redis_DecrBy b (Key req) (Increment req)
       (snd (redis_Exists b (Key req) (store w))))) = Some e \<Longrightarrow>
     fst (DecrHandler b req res w) = Some e"
  by (simp_all add: DeleteHandler_def FlushAllHandler_def IncrHandler_def DecrHandler_def
      backend_Del_def backend_FlushAll_def backend_Exists_def backend_IncrBy_def
      backend_DecrBy_def sent_eq)

section \<open>Properties of the serve loop\<close>

lemma handlers_ignore_Noreply:
  assumes "fn \<in> set (handlers b)"
  shows "fn (req\<lparr>Noreply := nr\<rparr>) res w = fn req res w"
proof -
  from assms consider "fn = GetHandler b" | "fn = SetHandler b" | "fn = AddHandler b"
    | "fn = DeleteHandler b" | "fn = IncrHandler b" | "fn = DecrHandler b"
    | "fn = FlushAllHandler b" | "fn = VersionHandler"
    by (auto simp: handlers_def)
  then show ?thesis
  proof cases
    case 1 then show ?thesis by (simp add: GetHandler_def)
  next
    case 2 then show ?thesis by (simp add: SetHandler_def split: sum.split)
  next
    case 3 then show ?thesis by (simp add: AddHandler_def split: sum.split)
  next
    case 4 then show ?thesis by (simp add: DeleteHandler_def)
  next
    case 5 then show ?thesis by (simp add: IncrHandler_def split: prod.split)
  next
    case 6 then show ?thesis by (simp add: DecrHandler_def split: prod.split)
  next
    case 7 then show ?thesis by (simp add: FlushAllHandler_def)
  next
    case 8 then show ?thesis by (simp add: VersionHandler_def)
  qed
qed

text \<open>
  Claim C6. A request with the no-reply flag whose command is in the dispatch table
  has its handler run, whatever error it returns: the loop goes on from the world the
  handler leaves and nothing is written. For each handler of the daemon that world
  is the one the same request without the flag leaves, the only difference being the
  response line written for the latter.
\<close>

theorem Serve_noreply:
  assumes "strings_ToLower (Command req) \<noteq> ''quit''"
    and "methods (strings_ToLower (Command req)) = Some fn"
    and "Noreply req"
  shows "Serve enc methods (Request req # rs) out w =
           Serve enc methods rs out (snd (snd (fn req McResponse_zero w)))
       \<and> (fn \<in> set (handlers b) \<longrightarrow>
            snd (snd (fn (req\<lparr>Noreply := False\<rparr>) McResponse_zero w))
              = snd (snd (fn req McResponse_zero w))
            \<and> Serve enc methods (Request (req\<lparr>Noreply := False\<rparr>) # rs) out w =
                Serve enc methods rs
                  (out @ [enc (case fst (fn req McResponse_zero w) of
                                 Some e \<Rightarrow> (fst (snd (fn req McResponse_zero w)))
                                             \<lparr>Response := ''SERVER_ERROR '' @ Error e\<rparr>
                               | None \<Rightarrow> fst (snd (fn req McResponse_zero w)))])
                  (snd (snd (fn req McResponse_zero w))))"
proof (intro conjI impI)
  show "Serve enc methods (Request req # rs) out w =
      Serve enc methods rs out (snd (snd (fn req McResponse_zero w)))"
    using assms by (simp add: dispatch_def split_beta Let_def)
next
  assume h: "fn \<in> set (handlers b)"
  show "snd (snd (fn (req\<lparr>Noreply := False\<rparr>) McResponse_zero w))
      = snd (snd (fn req McResponse_zero w))"
    by (simp add: handlers_ignore_Noreply [OF h])
  show "Serve enc methods (Request (req\<lparr>Noreply := False\<rparr>) # rs) out w =
      Serve enc methods rs
        (out @ [enc (case fst (fn req McResponse_zero w) of
                       Some e \<Rightarrow> (fst (snd (fn req McResponse_zero w)))
                                   \<lparr>Response := ''SERVER_ERROR '' @ Error e\<rparr>
                     | None \<Rightarrow> fst (snd (fn req McResponse_zero w)))])
        (snd (snd (fn req McResponse_zero w)))"
    using assms(1,2)
    by (simp add: dispatch_def handlers_ignore_Noreply [OF h] split_beta Let_def)
qed

lemma lower_examples:
  "strings_ToLower ''set'' = ''set''" "strings_ToLower ''incr'' = ''incr''"
  "strings_ToLower ''FOO'' = ''foo''" "strings_ToLower ''QUIT'' = ''quit''"
  by (simp_all add: strings_ToLower_def char_of_def bit_Suc_0_iff)

theorem Serve_noreply_witness:
  "Serve wire table
      [Request (request\<lparr>Command := ''set'', Key := ''k'', Value := ''v'', Noreply := True\<rparr>)]
      [] (world0 Map.empty)
     = (Reading, [],
        \<lparr>store = [''k'' \<mapsto> ''v''], calls = [Call_Set ''k'' ''v'' 0], clock = noon\<rparr>)
   \<and> Serve wire table
      [Request (request\<lparr>Command := ''set'', Key := ''k'', Value := ''v'', Noreply := False\<rparr>)]
      [] (world0 Map.empty)
     = (Reading, [''STORED'' @ CRLF],
        \<lparr>store = [''k'' \<mapsto> ''v''], calls = [Call_Set ''k'' ''v'' 0], clock = noon\<rparr>)
   \<and> Serve wire table
      [Request (request\<lparr>Command := ''incr'', Key := ''k'', Increment := 1, Noreply := True\<rparr>)]
      [] (world0 [''k'' \<mapsto> ''v''])
     = (Reading, [],
        \<lparr>store = [''k'' \<mapsto> ''v''], calls = [Call_Exists ''k'', Call_IncrBy ''k'' 1],
         clock = noon\<rparr>)"
proof -
  let ?set = "request\<lparr>Command := ''set'', Key := ''k'', Value := ''v'', Noreply := True\<rparr>"
  let ?incr = "request\<lparr>Command := ''incr'', Key := ''k'', Increment := 1, Noreply := True\<rparr>"
  have set: "SetHandler mem_Client ?set McResponse_zero (world0 Map.empty)
      = (None, \<lparr>Response = ''STORED'', Values = []\<rparr>,
         \<lparr>store = [''k'' \<mapsto> ''v''], calls = [Call_Set ''k'' ''v'' 0], clock = noon\<rparr>)"
    by (simp add: SetHandler_def backend_Set_def sent_eq mem_Client_def parser_zero
        request_def world0_def McResponse_zero_def Err_def)
  have "ParseInt ''v'' = None"
    by (simp add: ParseInt_def)
  then have incr: "IncrHandler mem_Client ?incr McResponse_zero (world0 [''k'' \<mapsto> ''v''])
      = (Some not_an_integer, McResponse_zero,
         \<lparr>store = [''k'' \<mapsto> ''v''], calls = [Call_Exists ''k'', Call_IncrBy ''k'' 1],
          clock = noon\<rparr>)"
    by (simp add: IncrHandler_def backend_Exists_def backend_IncrBy_def sent_eq mem_Client_def
        mem_IncrBy_def request_def world0_def Err_def Val_def)
  have m: "table ''set'' = Some (SetHandler mem_Client)"
    "table ''incr'' = Some (IncrHandler mem_Client)"
    by (simp_all add: table_def)
  have h: "SetHandler mem_Client \<in> set (handlers mem_Client)"
    by (simp add: handlers_def)
  have silent: "Serve wire table [Request ?set] [] (world0 Map.empty)
     = (Reading, [],
        \<lparr>store = [''k'' \<mapsto> ''v''], calls = [Call_Set ''k'' ''v'' 0], clock = noon\<rparr>)"
    using Serve_noreply [where req = ?set and methods = table and fn = "SetHandler mem_Client"
        and enc = wire and rs = "[]" and out = "[]" and w = "world0 Map.empty"
        and b = mem_Client, THEN conjunct1]
    by (simp add: lower_examples m set)
  have answered: "Serve wire table
      [Request (request\<lparr>Command := ''set'', Key := ''k'', Value := ''v'', Noreply := False\<rparr>)]
      [] (world0 Map.empty)
     = (Reading, [''STORED'' @ CRLF],
        \<lparr>store = [''k'' \<mapsto> ''v''], calls = [Call_Set ''k'' ''v'' 0], clock = noon\<rparr>)"
    using Serve_noreply [where req = ?set and methods = table and fn = "SetHandler mem_Client"
        and enc = wire and rs = "[]" and out = "[]" and w = "world0 Map.empty"
        and b = mem_Client, THEN conjunct2] h
    by (simp add: lower_examples m set wire_def)
  have failed: "Serve wire table [Request ?incr] [] (world0 [''k'' \<mapsto> ''v''])
     = (Reading, [],
        \<lparr>store = [''k'' \<mapsto> ''v''], calls = [Call_Exists ''k'', Call_IncrBy ''k'' 1],
         clock = noon\<rparr>)"
    using Serve_noreply [where req = ?incr and methods = table and fn = "IncrHandler mem_Client"
        and enc = wire and rs = "[]" and out = "[]" and w = "world0 [''k'' \<mapsto> ''v'']"
        and b = mem_Client, THEN conjunct1]
    by (simp add: lower_examples m incr)
  show ?thesis
    by (intro conjI) (rule silent, rule answered, rule failed)
qed

text \<open>
  Claim C7. A request whose lower-cased command is not \<open>quit\<close> and is not in the
  dispatch table gets the line "ERROR not implemented cmd '...' in handler" written,
  whatever its no-reply flag, and the loop goes on from an unchanged world.
\<close>

theorem Serve_unknown_command:
  assumes "strings_ToLower (Command req) \<noteq> ''quit''"
    and "methods (strings_ToLower (Command req)) = None"
  shows "Serve enc methods (Request (req\<lparr>Noreply := nr\<rparr>) # rs) out w =
           Serve enc methods rs
             (out @ [enc \<lparr>Response = ''ERROR not implemented cmd '' @ [CHR 0x27]
                            @ strings_ToLower (Command req) @ [CHR 0x27] @ '' in handler'',
                          Values = []\<rparr>])
             w"
  using assms by (simp add: dispatch_def McResponse_zero_def)

theorem Serve_unknown_command_witness:
  "Serve wire table [Request (request\<lparr>Command := ''FOO'', Noreply := True\<rparr>)] []
      (world0 Map.empty)
     = (Reading,
        [''ERROR not implemented cmd '' @ [CHR 0x27] @ ''foo'' @ [CHR 0x27] @ '' in handler''
           @ CRLF],
        world0 Map.empty)"
proof -
  have "table ''foo'' = None"
    by (simp add: table_def)
  then show ?thesis
    using Serve_unknown_command [where req = "request\<lparr>Command := ''FOO''\<rparr>" and nr = True
        and methods = table and enc = wire and rs = "[]" and out = "[]"
        and w = "world0 Map.empty"]
    by (simp add: lower_examples wire_def McResponse_zero_def)
qed

lemma Serve_terminal:
  "terminal r \<Longrightarrow> Serve enc methods (r # post) out w = (Closed (surfaced r), out, w)"
  by (cases r) simp_all

lemma Serve_prefix:
  assumes "\<forall>x \<in> set pre. \<not> terminal x"
  shows "fst (Serve enc methods pre out w) = Reading
       \<and> Serve enc methods (pre @ rest) out w =
           Serve enc methods rest (fst (snd (Serve enc methods pre out w)))
             (snd (snd (Serve enc methods pre out w)))"
  using assms
proof (induction pre arbitrary: out w)
  case Nil
  show ?case by simp
next
  case (Cons r pre)
  then have IH: "\<And>out w. fst (Serve enc methods pre out w) = Reading
       \<and> Serve enc methods (pre @ rest) out w =
           Serve enc methods rest (fst (snd (Serve enc methods pre out w)))
             (snd (snd (Serve enc methods pre out w)))"
    by simp
  from Cons.prems have r: "\<not> terminal r" by simp
  show ?case
  proof (cases r)
    case (Request req)
    with r have q: "strings_ToLower (Command req) \<noteq> ''quit''" by simp
    obtain out1 w1 where
      d: "dispatch enc methods req (strings_ToLower (Command req)) out w = (out1, w1)"
      by (cases "dispatch enc methods req (strings_ToLower (Command req)) out w")
    have step: "\<And>xs. Serve enc methods (Request req # xs) out w = Serve enc methods xs out1 w1"
      using q d by (simp add: Let_def)
    show ?thesis
      unfolding Request append_Cons step by (rule IH)
  next
    case (ProtocolError perr)
    then show ?thesis using IH by simp
  next
    case EOF
    with r show ?thesis by simp
  next
    case (ReadError e)
    with r show ?thesis by simp
  qed
qed

lemma Serve_first_terminal:
  assumes "inputs = pre @ r # post" and "terminal r" and "\<forall>x \<in> set pre. \<not> terminal x"
  shows "Serve enc methods inputs out w =
    (Closed (surfaced r), snd (Serve enc methods pre out w))"
proof -
  have "Serve enc methods (pre @ r # post) out w =
      Serve enc methods (r # post) (fst (snd (Serve enc methods pre out w)))
        (snd (snd (Serve enc methods pre out w)))"
    by (rule Serve_prefix [OF assms(3), THEN conjunct2])
  also have "\<dots> = (Closed (surfaced r), fst (snd (Serve enc methods pre out w)),
      snd (snd (Serve enc methods pre out w)))"
    by (rule Serve_terminal [OF assms(2)])
  also have "\<dots> = (Closed (surfaced r), snd (Serve enc methods pre out w))"
    by (simp only: prod.collapse)
  finally show ?thesis
    unfolding assms(1) .
qed

text \<open>
  Claim C8. The loop has returned after a sequence of reads exactly when one of them
  was end-of-stream, a non-protocol error or a \<open>quit\<close> request. At the first such read
  it returns with the output and the world of the reads before it, writing nothing
  more, and the error it returns is the read's own error for a non-protocol error
  and none for end-of-stream and \<open>quit\<close>. A protocol error writes the line
  \<open>CLIENT_ERROR\<close> with its message and the loop goes on with the next read.
\<close>

theorem Serve_closes:
  "((\<exists>e. fst (Serve enc methods inputs out w) = Closed e) \<longleftrightarrow> (\<exists>r \<in> set inputs. terminal r))
   \<and> (\<forall>pre r post.
        inputs = pre @ r # post \<and> (\<forall>x \<in> set pre. \<not> terminal x) \<and> terminal r \<longrightarrow>
        Serve enc methods inputs out w =
          (Closed (surfaced r), snd (Serve enc methods pre out w)))
   \<and> (\<forall>perr rs.
        inputs = ProtocolError perr # rs \<longrightarrow>
        Serve enc methods inputs out w =
          Serve enc methods rs (out @ [''CLIENT_ERROR '' @ perr @ CRLF]) w)"
proof (intro conjI allI impI)
  show "(\<exists>e. fst (Serve enc methods inputs out w) = Closed e) \<longleftrightarrow> (\<exists>r \<in> set inputs. terminal r)"
  proof
    assume closed: "\<exists>e. fst (Serve enc methods inputs out w) = Closed e"
    show "\<exists>r \<in> set inputs. terminal r"
    proof (rule ccontr)
      assume "\<not> (\<exists>r \<in> set inputs. terminal r)"
      then have "\<forall>x \<in> set inputs. \<not> terminal x" by blast
      then have "fst (Serve enc methods inputs out w) = Reading"
        using Serve_prefix [of inputs enc methods out w "[]"] by simp
      with closed show False by simp
    qed
  next
    assume "\<exists>r \<in> set inputs. terminal r"
    then obtain pre r post where
      "inputs = pre @ r # post" and "terminal r" and "\<forall>x \<in> set pre. \<not> terminal x"
      using split_list_first_prop [of inputs terminal] by blast
    then have "Serve enc methods inputs out w =
        (Closed (surfaced r), snd (Serve enc methods pre out w))"
      by (rule Serve_first_terminal)
    then show "\<exists>e. fst (Serve enc methods inputs out w) = Closed e" by simp
  qed
next
  fix pre r post
  assume "inputs = pre @ r # post \<and> (\<forall>x \<in> set pre. \<not> terminal x) \<and> terminal r"
  then show "Serve enc methods inputs out w =
      (Closed (surfaced r), snd (Serve enc methods pre out w))"
    by (elim conjE) (rule Serve_first_terminal)
next
  fix perr rs
  assume "inputs = ProtocolError perr # rs"
  then show "Serve enc methods inputs out w =
      Serve enc methods rs (out @ [''CLIENT_ERROR '' @ perr @ CRLF]) w"
    by simp
qed

theorem Serve_closes_witness:
  "Serve wire table [ProtocolError ''bad'', Request (request\<lparr>Command := ''QUIT''\<rparr>), EOF] []
      (world0 Map.empty)
     = (Closed None, [''CLIENT_ERROR bad'' @ CRLF], world0 Map.empty)
   \<and> Serve wire table [ProtocolError ''bad'', ReadError refused] [] (world0 Map.empty)
     = (Closed (Some refused), [''CLIENT_ERROR bad'' @ CRLF], world0 Map.empty)
   \<and> Serve wire table [ProtocolError ''bad'', EOF] [] (world0 Map.empty)
     = (Closed None, [''CLIENT_ERROR bad'' @ CRLF], world0 Map.empty)
   \<and> (\<exists>e. fst (Serve wire table [ProtocolError ''bad'', EOF] [] (world0 Map.empty)) = Closed e)
   \<and> \<not> (\<exists>e. fst (Serve wire table [ProtocolError ''bad''] [] (world0 Map.empty)) = Closed e)
   \<and> Serve wire table [ProtocolError ''bad''] [] (world0 Map.empty)
     = Serve wire table [] [''CLIENT_ERROR '' @ ''bad'' @ CRLF] (world0 Map.empty)"
proof -
  let ?w = "world0 (Map.empty :: string \<rightharpoonup> string)"
  have pre: "Serve wire table [ProtocolError ''bad''] [] ?w
      = (Reading, [''CLIENT_ERROR bad'' @ CRLF], ?w)"
    by simp
  have quit: "Serve wire table [ProtocolError ''bad'', Request (request\<lparr>Command := ''QUIT''\<rparr>), EOF]
      [] ?w = (Closed None, [''CLIENT_ERROR bad'' @ CRLF], ?w)"
    using Serve_closes [where enc = wire and methods = table and out = "[]" and w = ?w
        and inputs = "[ProtocolError ''bad'', Request (request\<lparr>Command := ''QUIT''\<rparr>), EOF]",
        THEN conjunct2, THEN conjunct1, rule_format,
        of "[ProtocolError ''bad'']" "Request (request\<lparr>Command := ''QUIT''\<rparr>)" "[EOF]"]
    by (simp add: lower_examples)
  have fatal: "Serve wire table [ProtocolError ''bad'', ReadError refused] [] ?w
      = (Closed (Some refused), [''CLIENT_ERROR bad'' @ CRLF], ?w)"
    using Serve_closes [where enc = wire and methods = table and out = "[]" and w = ?w
        and inputs = "[ProtocolError ''bad'', ReadError refused]",
        THEN conjunct2, THEN conjunct1, rule_format,
        of "[ProtocolError ''bad'']" "ReadError refused" "[]"]
    by simp
  have eof: "Serve wire table [ProtocolError ''bad'', EOF] [] ?w
      = (Closed None, [''CLIENT_ERROR bad'' @ CRLF], ?w)"
    using Serve_closes [where enc = wire and methods = table and out = "[]" and w = ?w
        and inputs = "[ProtocolError ''bad'', EOF]",
        THEN conjunct2, THEN conjunct1, rule_format,
        of "[ProtocolError ''bad'']" EOF "[]"]
    by simp
  have closed: "\<exists>e. fst (Serve wire table [ProtocolError ''bad'', EOF] [] ?w) = Closed e"
    using Serve_closes [where enc = wire and methods = table and out = "[]" and w = ?w
        and inputs = "[ProtocolError ''bad'', EOF]", THEN conjunct1]
    by simp
  have reading: "\<not> (\<exists>e. fst (Serve wire table [ProtocolError ''bad''] [] ?w) = Closed e)"
    using Serve_closes [where enc = wire and methods = table and out = "[]" and w = ?w
        and inputs = "[ProtocolError ''bad'']", THEN conjunct1]
    by simp
  have recover: "Serve wire table [ProtocolError ''bad''] [] ?w
      = Serve wire table [] [''CLIENT_ERROR '' @ ''bad'' @ CRLF] ?w"
    using Serve_closes [where enc = wire and methods = table and out = "[]" and w = ?w
        and inputs = "[ProtocolError ''bad'']", THEN conjunct2, THEN conjunct2, rule_format,
        of "''bad''" "[]"]
    by simp
  show ?thesis
    by (intro conjI) (rule quit, rule fatal, rule eof, rule closed, rule reading, rule recover)
qed

text \<open>
  An error returned by a handler replaces the status line by \<open>SERVER_ERROR\<close> with the
  error's message, and the loop goes on.
\<close>

lemma Serve_handler_error:
  assumes "strings_ToLower (Command req) \<noteq> ''quit''"
    and "methods (strings_ToLower (Command req)) = Some fn"
    and "fst (fn req McResponse_zero w) = Some e"
    and "\<not> Noreply req"
  shows "Serve enc methods (Request req # rs) out w =
           Serve enc methods rs
             (out @ [enc ((fst (snd (fn req McResponse_zero w)))
                            \<lparr>Response := ''SERVER_ERROR '' @ Error e\<rparr>)])
             (snd (snd (fn req McResponse_zero w)))"
  using assms by (simp add: dispatch_def split_beta Let_def)

end
